theory Spec2Isabelle
  imports Main "HOL-Library.Word"
begin

section \<open>Constants of import\_elu.py\<close>

text \<open>
  The file is a sequence of bytes. The integers \<^verbatim>\<open>struct.unpack\<close> returns are Python
  integers: unsigned and unbounded once unpacked, so they are natural numbers here, and
  the width of a field is in the unpacking function that reads it.
\<close>

type_synonym byte = "8 word"

text \<open>
  A single precision float is kept as the 32 bits that \<^verbatim>\<open>struct.unpack('<f', ...)\<close>
  decodes: no float arithmetic is modelled, only the two things the importer does with
  such a value (comparing it with \<^verbatim>\<open>0.0\<close> and computing \<^verbatim>\<open>1.0 - v\<close>).
\<close>

type_synonym f32 = "32 word"

definition ELU_MAGIC :: nat where
  "ELU_MAGIC = 0x0107F060"

definition ELU_VERSIONS :: "nat set" where
  "ELU_VERSIONS = {0x11, 0x5001, 0x5002, 0x5003, 0x5004, 0x5005, 0x5006, 0x5007,
                   0x5008, 0x500A, 0x500B, 0x500C, 0x500E, 0x500F, 0x5010, 0x5011}"

abbreviation x11 :: nat where "x11 \<equiv> 0x11"
abbreviation x5001 :: nat where "x5001 \<equiv> 0x5001"
abbreviation x5002 :: nat where "x5002 \<equiv> 0x5002"
abbreviation x5003 :: nat where "x5003 \<equiv> 0x5003"
abbreviation x5004 :: nat where "x5004 \<equiv> 0x5004"
abbreviation x5006 :: nat where "x5006 \<equiv> 0x5006"
abbreviation x5008 :: nat where "x5008 \<equiv> 0x5008"
abbreviation x500A :: nat where "x500A \<equiv> 0x500A"
abbreviation x500B :: nat where "x500B \<equiv> 0x500B"
abbreviation x500E :: nat where "x500E \<equiv> 0x500E"
abbreviation x5010 :: nat where "x5010 \<equiv> 0x5010"

definition NAME_LENGTH :: nat where
  "NAME_LENGTH = 40"

definition PATH_LENGTH :: nat where
  "PATH_LENGTH = 256"

definition FACE_VERTEX_COUNT :: nat where
  "FACE_VERTEX_COUNT = 3"

definition BONE_INFLUENCE_COUNT :: nat where
  "BONE_INFLUENCE_COUNT = 4"

definition SMOOTH_GROUP_COUNT :: nat where
  "SMOOTH_GROUP_COUNT = 32"

section \<open>The bone-name pattern \<^verbatim>\<open>ELU_BIP_REGEX\<close>\<close>

text \<open>
  \<^verbatim>\<open>^Bip\d{2,}\s*(?P<side>L|R)?\s*(?P<name>[a-zA-Z]+)?(?P<index>\d+)?(?P<nub>[a-zA-Z]+)?$\<close>

  The pattern is matched the way Python's backtracking matcher does it: every piece
  yields its possible matches in the order the matcher tries them (a greedy repetition
  the longest first, an optional group present before absent), and the match is the first
  combination that reaches \<^verbatim>\<open>$\<close>. A character is a code point below 256; the names
  the importer passes are decoded from ASCII.
\<close>

definition is_digit :: "char \<Rightarrow> bool" where
  "is_digit c = (c \<in> set ''0123456789'')"

definition is_alpha :: "char \<Rightarrow> bool" where
  "is_alpha c = (c \<in> set ''abcdefghijklmnopqrstuvwxyzABCDEFGHIJKLMNOPQRSTUVWXYZ'')"

definition is_space :: "char \<Rightarrow> bool" where
  "is_space c = (c \<in> set [CHR 0x09, CHR 0x0A, CHR 0x0B, CHR 0x0C, CHR 0x0D,
                            CHR 0x1C, CHR 0x1D, CHR 0x1E, CHR 0x1F, CHR 0x20,
                            CHR 0x85, CHR 0xA0])"

record groups =
  g_side :: "string option"
  g_name :: "string option"
  g_index :: "string option"
  g_nub :: "string option"

definition spans :: "(char \<Rightarrow> bool) \<Rightarrow> nat \<Rightarrow> string \<Rightarrow> (string \<times> string) list" where
  \<comment> \<open>a greedy repetition of a character class, at least \<open>m\<close> times: longest first\<close>
  "spans p m s =
     map (\<lambda>k. (take k s, drop k s)) (rev [m ..< Suc (length (takeWhile p s))])"

definition opt_group :: "(char \<Rightarrow> bool) \<Rightarrow> string \<Rightarrow> (string option \<times> string) list" where
  \<comment> \<open>\<^verbatim>\<open>(?P<g>[class]+)?\<close>: the group first, then without it\<close>
  "opt_group p s = map (\<lambda>(a, r). (Some a, r)) (spans p 1 s) @ [(None, s)]"

definition opt_side :: "string \<Rightarrow> (string option \<times> string) list" where
  \<comment> \<open>\<^verbatim>\<open>(?P<side>L|R)?\<close>\<close>
  "opt_side s =
     (case s of
        c # r \<Rightarrow> (if c = CHR ''L'' \<or> c = CHR ''R'' then [(Some [c], r)] else [])
      | [] \<Rightarrow> []) @ [(None, s)]"

definition strip_Bip :: "string \<Rightarrow> string option" where
  "strip_Bip s = (if take 3 s = ''Bip'' then Some (drop 3 s) else None)"

definition bip_candidates :: "string \<Rightarrow> (groups \<times> string) list" where
  "bip_candidates s =
     (case strip_Bip s of
        None \<Rightarrow> []
      | Some r0 \<Rightarrow>
          List.bind (spans is_digit 2 r0) (\<lambda>(d, r1).
          List.bind (spans is_space 0 r1) (\<lambda>(w1, r2).
          List.bind (opt_side r2) (\<lambda>(sd, r3).
          List.bind (spans is_space 0 r3) (\<lambda>(w2, r4).
          List.bind (opt_group is_alpha r4) (\<lambda>(nm, r5).
          List.bind (opt_group is_digit r5) (\<lambda>(ix, r6).
          List.bind (opt_group is_alpha r6) (\<lambda>(nb, r7).
            [(\<lparr>g_side = sd, g_name = nm, g_index = ix, g_nub = nb\<rparr>, r7)]))))))))"

definition at_dollar :: "string \<Rightarrow> bool" where
  \<comment> \<open>\<^verbatim>\<open>$\<close> without MULTILINE: the end, or just before a newline that ends the string\<close>
  "at_dollar r = (r = [] \<or> r = [CHR 0x0A])"

definition bip_match :: "string \<Rightarrow> (groups \<times> string) option" where
  "bip_match s = List.find (\<lambda>(g, r). at_dollar r) (bip_candidates s)"

section \<open>\<^verbatim>\<open>elu_to_blender_name\<close>\<close>

definition digit_val :: "char \<Rightarrow> nat" where
  "digit_val c = of_char c - 48"

definition int_of_digits :: "string \<Rightarrow> nat" where
  \<comment> \<open>Python's \<^verbatim>\<open>int(s)\<close> on a string of decimal digits\<close>
  "int_of_digits d = foldl (\<lambda>n c. 10 * n + digit_val c) 0 d"

definition pad3 :: "string \<Rightarrow> string" where
  \<comment> \<open>the format spec \<^verbatim>\<open>0>3\<close>: right-aligned in width 3, filled with zeros\<close>
  "pad3 d = replicate (3 - length d) (CHR ''0'') @ d"

definition blend :: "groups \<Rightarrow> string" where
  "blend g =
     (case g_name g of Some n \<Rightarrow> ''ZBip_'' @ n | None \<Rightarrow> ''ZBip_Root'')
     @ (case g_nub g of Some n \<Rightarrow> ''_'' @ n | None \<Rightarrow> [])
     @ (case g_side g of Some s \<Rightarrow> ''.'' @ s | None \<Rightarrow> [])
     @ (case g_index g of
          None \<Rightarrow> []
        | Some d \<Rightarrow>
            if length d > 1 \<and> int_of_digits d < 10 then ''.1'' @ pad3 d
            else if int_of_digits d > 0 then ''.'' @ pad3 d
            else [])"

definition elu_to_blender_name :: "string \<Rightarrow> string \<times> nat" where
  \<comment> \<open>\<^verbatim>\<open>ELU_BIP_PROGRAM.subn(blend, name)\<close>: the new string and the number of
      substitutions; the pattern can only match at position 0\<close>
  "elu_to_blender_name s =
     (case bip_match s of
        None \<Rightarrow> (s, 0)
      | Some (g, r) \<Rightarrow> (blend g @ r, 1))"

section \<open>The file object and \<^verbatim>\<open>struct.unpack\<close>\<close>

text \<open>
  The exceptions the decoder can raise: \<^verbatim>\<open>struct.error\<close> when \<^verbatim>\<open>read\<close> returned fewer
  bytes than the format needs, \<^verbatim>\<open>UnicodeDecodeError\<close> when a name holds a byte above
  127, \<^verbatim>\<open>IndexError\<close> when a list is indexed out of range.
\<close>

datatype error = StructError | UnicodeDecodeError | IndexError

text \<open>
  The open file: its bytes, the position of the next read, and the positions that
  \<^verbatim>\<open>logging.warning("Oh no! %x", elu.tell())\<close> has logged, oldest first.
\<close>

record elu =
  bytes :: "byte list"
  pos :: nat
  warnings :: "nat list"

type_synonym 'a reader = "elu \<Rightarrow> error + ('a \<times> elu)"

definition ret :: "'a \<Rightarrow> 'a reader" where
  "ret x e = Inr (x, e)"

definition raise :: "error \<Rightarrow> 'a reader" where
  "raise x e = Inl x"

definition bnd :: "'a reader \<Rightarrow> ('a \<Rightarrow> 'b reader) \<Rightarrow> 'b reader" where
  "bnd m f e = (case m e of Inl x \<Rightarrow> Inl x | Inr (a, e') \<Rightarrow> f a e')"

definition lift :: "error + 'a \<Rightarrow> 'a reader" where
  "lift r e = (case r of Inl x \<Rightarrow> Inl x | Inr a \<Rightarrow> Inr (a, e))"

definition read :: "nat \<Rightarrow> byte list reader" where
  \<comment> \<open>\<^verbatim>\<open>elu.read(n)\<close>: at most \<open>n\<close> bytes, fewer at the end of the file\<close>
  "read n e =
     (let chunk = take n (drop (pos e) (bytes e))
      in Inr (chunk, e\<lparr>pos := pos e + length chunk\<rparr>))"

definition seek_cur :: "nat \<Rightarrow> unit reader" where
  \<comment> \<open>\<^verbatim>\<open>elu.seek(n, os.SEEK_CUR)\<close>: a file may be positioned past its end\<close>
  "seek_cur n e = Inr ((), e\<lparr>pos := pos e + n\<rparr>)"

definition warning :: "unit reader" where
  "warning e = Inr ((), e\<lparr>warnings := warnings e @ [pos e]\<rparr>)"

primrec for_each :: "'a list \<Rightarrow> ('a \<Rightarrow> 's \<Rightarrow> 's reader) \<Rightarrow> 's \<Rightarrow> 's reader" where
  "for_each [] body s = ret s"
| "for_each (x # xs) body s = bnd (body x s) (for_each xs body)"

definition for_range :: "nat \<Rightarrow> (nat \<Rightarrow> 's \<Rightarrow> 's reader) \<Rightarrow> 's \<Rightarrow> 's reader" where
  \<comment> \<open>\<^verbatim>\<open>for i in range(n)\<close>, the loop's variables threaded as \<open>s\<close>\<close>
  "for_range n body s = for_each [0 ..< n] body s"

definition skip_each :: "nat \<Rightarrow> nat \<Rightarrow> unit reader" where
  \<comment> \<open>\<^verbatim>\<open>for i in range(n): elu.seek(k, os.SEEK_CUR)\<close>\<close>
  "skip_each n k = for_range n (\<lambda>i u. seek_cur k) ()"

definition le_nat :: "byte list \<Rightarrow> nat" where
  \<comment> \<open>little-endian\<close>
  "le_nat bs = foldr (\<lambda>b n. unat b + 256 * n) bs 0"

definition field :: "byte list \<Rightarrow> nat \<Rightarrow> nat \<Rightarrow> nat" where
  \<comment> \<open>the unsigned integer in the \<open>w\<close> bytes at offset \<open>i\<close>\<close>
  "field bs i w = le_nat (take w (drop i bs))"

definition unpack_I :: "nat \<Rightarrow> byte list \<Rightarrow> error + nat list" where
  \<comment> \<open>\<^verbatim>\<open>struct.unpack('<nI', bs)\<close>\<close>
  "unpack_I n bs =
     (if length bs = 4 * n then Inr (map (\<lambda>i. field bs (4 * i) 4) [0 ..< n])
      else Inl StructError)"

definition unpack_H :: "nat \<Rightarrow> byte list \<Rightarrow> error + nat list" where
  \<comment> \<open>\<^verbatim>\<open>struct.unpack('<nH', bs)\<close>\<close>
  "unpack_H n bs =
     (if length bs = 2 * n then Inr (map (\<lambda>i. field bs (2 * i) 2) [0 ..< n])
      else Inl StructError)"

definition unpack_f :: "nat \<Rightarrow> byte list \<Rightarrow> error + f32 list" where
  \<comment> \<open>\<^verbatim>\<open>struct.unpack('<nf', bs)\<close>\<close>
  "unpack_f n bs =
     (if length bs = 4 * n then Inr (map (\<lambda>i. of_nat (field bs (4 * i) 4)) [0 ..< n])
      else Inl StructError)"

definition unpack_Hf :: "byte list \<Rightarrow> error + (nat \<times> f32)" where
  \<comment> \<open>\<^verbatim>\<open>struct.unpack('<Hf', bs)\<close>: no padding in a little-endian format\<close>
  "unpack_Hf bs =
     (if length bs = 6 then Inr (field bs 0 2, of_nat (field bs 2 4))
      else Inl StructError)"

definition unpack_5H :: "byte list \<Rightarrow> error + (nat \<times> nat \<times> nat \<times> nat \<times> nat)" where
  \<comment> \<open>\<^verbatim>\<open>struct.unpack('<5H', bs)\<close>\<close>
  "unpack_5H bs =
     (if length bs = 10
      then Inr (field bs 0 2, field bs 2 2, field bs 4 2, field bs 6 2, field bs 8 2)
      else Inl StructError)"

definition unpack_2HI2H :: "byte list \<Rightarrow> error + (nat \<times> nat \<times> nat \<times> nat \<times> nat)" where
  \<comment> \<open>\<^verbatim>\<open>struct.unpack('<2HI2H', bs)\<close>\<close>
  "unpack_2HI2H bs =
     (if length bs = 12
      then Inr (field bs 0 2, field bs 2 2, field bs 4 4, field bs 8 2, field bs 10 2)
      else Inl StructError)"

definition read_I :: "nat reader" where
  \<comment> \<open>\<^verbatim>\<open>struct.unpack('<I', elu.read(4))[0]\<close>\<close>
  "read_I = bnd (read 4) (\<lambda>bs. bnd (lift (unpack_I 1 bs)) (\<lambda>xs. ret (hd xs)))"

definition read_2I :: "(nat \<times> nat) reader" where
  \<comment> \<open>\<^verbatim>\<open>a, b = struct.unpack('<2I', elu.read(8))\<close>\<close>
  "read_2I = bnd (read 8) (\<lambda>bs. bnd (lift (unpack_I 2 bs)) (\<lambda>xs. ret (xs ! 0, xs ! 1)))"

definition read_3I :: "(nat \<times> nat \<times> nat) reader" where
  "read_3I =
     bnd (read 12) (\<lambda>bs. bnd (lift (unpack_I 3 bs)) (\<lambda>xs. ret (xs ! 0, xs ! 1, xs ! 2)))"

definition read_3H :: "nat list reader" where
  "read_3H = bnd (read 6) (\<lambda>bs. lift (unpack_H 3 bs))"

definition read_f :: "nat \<Rightarrow> f32 list reader" where
  \<comment> \<open>\<^verbatim>\<open>struct.unpack('<nf', elu.read(4 * n))\<close>\<close>
  "read_f n = bnd (read (4 * n)) (\<lambda>bs. lift (unpack_f n bs))"

definition read_3f :: "(f32 \<times> f32 \<times> f32) reader" where
  \<comment> \<open>\<^verbatim>\<open>x, y, z = struct.unpack('<3f', elu.read(12))\<close>\<close>
  "read_3f = bnd (read_f 3) (\<lambda>xs. ret (xs ! 0, xs ! 1, xs ! 2))"

definition float_gt_zero :: "f32 \<Rightarrow> bool" where
  \<comment> \<open>\<^verbatim>\<open>w > 0.0\<close> on the bits of a single: the sign bit clear, not zero, not a NaN\<close>
  "float_gt_zero w = (0 < w \<and> w \<le> 0x7F800000)"

text \<open>The Python double \<^verbatim>\<open>1.0 - v\<close> of an unpacked single \<open>v\<close>, kept as the expression.\<close>

datatype flipped = OneMinus f32

section \<open>Names\<close>

definition ascii :: "byte list \<Rightarrow> error + string" where
  \<comment> \<open>\<^verbatim>\<open>str(bs, encoding='ascii')\<close>\<close>
  "ascii bs =
     (if \<forall>b \<in> set bs. b < 0x80 then Inr (map (\<lambda>b. char_of (unat b)) bs)
      else Inl UnicodeDecodeError)"

definition rstrip0 :: "string \<Rightarrow> string" where
  \<comment> \<open>\<^verbatim>\<open>s.rstrip('\0')\<close>\<close>
  "rstrip0 s = rev (dropWhile (\<lambda>c. c = CHR 0x00) (rev s))"

definition decode_name :: "byte list \<Rightarrow> (string \<times> nat) reader" where
  \<comment> \<open>\<^verbatim>\<open>elu_to_blender_name(str(name, encoding='ascii').rstrip('\0'))\<close>\<close>
  "decode_name bs = bnd (lift (ascii bs)) (\<lambda>s. ret (elu_to_blender_name (rstrip0 s)))"

section \<open>Pools shared by the two mesh decoders\<close>

type_synonym vec3 = "f32 \<times> f32 \<times> f32"

type_synonym uv = "f32 \<times> flipped"

definition read_vec3s :: "nat \<Rightarrow> vec3 list reader" where
  \<comment> \<open>\<^verbatim>\<open>for i in range(n): x, y, z = unpack('<3f', elu.read(12)); xs.append((x, y, z))\<close>\<close>
  "read_vec3s n = for_range n (\<lambda>i acc. bnd read_3f (\<lambda>v. ret (acc @ [v]))) []"

definition flip_v :: "vec3 \<Rightarrow> uv" where
  \<comment> \<open>\<^verbatim>\<open>(u, 1.0 - v)\<close>: flip v, drop w\<close>
  "flip_v t = (case t of (u, v, w) \<Rightarrow> (u, OneMinus v))"

definition matrix_rows :: "nat list list \<Rightarrow> f32 list \<Rightarrow> f32 list list" where
  \<comment> \<open>\<^verbatim>\<open>mathutils.Matrix(((m[i], ...), ...))\<close> from the 16 unpacked floats\<close>
  "matrix_rows ixs m = map (map (\<lambda>i. m ! i)) ixs"

definition flatten_cols :: "f32 list list \<Rightarrow> f32 list" where
  \<comment> \<open>\<^verbatim>\<open>[x for col in matrix.col[:] for x in col]\<close>\<close>
  "flatten_cols rows = concat (map (\<lambda>j. map (\<lambda>row. row ! j) rows) [0 ..< 4])"

section \<open>\<^verbatim>\<open>load_elu_mesh_b\<close>: reading\<close>

definition skip_unknown_pool :: "nat \<Rightarrow> unit reader" where
  \<comment> \<open>the first unknown pool: 12 bytes an entry, 16 after 0x500E\<close>
  "skip_unknown_pool version =
     bnd read_I (\<lambda>unknown_count.
       skip_each unknown_count (if version > x500E then 16 else 12))"

definition skip_second_pool :: "nat \<Rightarrow> unit reader" where
  \<comment> \<open>the second unknown count, forced to 0 after 0x500E\<close>
  "skip_second_pool version =
     bnd read_I (\<lambda>unknown_count.
       if version > x500E \<and> unknown_count \<noteq> 0
       then bnd warning (\<lambda>u. skip_each 0 12)
       else skip_each unknown_count 12)"

definition read_texcoords :: "uv list reader" where
  "read_texcoords =
     bnd read_I (\<lambda>vertex_texcoord_count.
       for_range vertex_texcoord_count
         (\<lambda>i acc. bnd read_3f (\<lambda>t. ret (acc @ [flip_v t]))) [])"

definition skip_third_pool :: "nat \<Rightarrow> unit reader" where
  "skip_third_pool version =
     (if version \<ge> x500E \<and> version \<noteq> x5010
      then bnd read_I (\<lambda>unknown_count. skip_each unknown_count 12)
      else ret ())"

definition skip_groups :: "nat \<Rightarrow> nat reader" where
  \<comment> \<open>returns \<^verbatim>\<open>unknown_count0\<close>, the face count of the versions up to 0x500A\<close>
  "skip_groups version =
     bnd read_I (\<lambda>unknown_count0.
     bnd (if version > x500A
          then (if unknown_count0 > 0
                then bnd (seek_cur 8) (\<lambda>u.
                       for_range unknown_count0
                         (\<lambda>i u. bnd read_I (\<lambda>unknown_count1.
                            bnd (skip_each unknown_count1 (if version < x500E then 10 else 12))
                              (\<lambda>u. seek_cur 2))) ())
                else ret ())
          else skip_each unknown_count0 32)
       (\<lambda>u. ret unknown_count0))"

definition skip_fourth_pool :: "unit reader" where
  "skip_fourth_pool =
     bnd read_I (\<lambda>unknown_count.
     bnd (skip_each unknown_count 12) (\<lambda>u. seek_cur 4))"

text \<open>
  \<^verbatim>\<open>bone_influences\<close>: a dictionary from the bone index to a dictionary from the bone
  weight to the list of blend-vertex indices. Only weights above zero become keys, and on
  those two floats are equal exactly when their bits are.
\<close>

type_synonym influences = "nat \<rightharpoonup> (f32 \<rightharpoonup> nat list)"

definition add_influence :: "nat \<Rightarrow> nat \<Rightarrow> f32 \<Rightarrow> influences \<Rightarrow> influences" where
  "add_influence i bone_index bone_weight infl =
     (if float_gt_zero bone_weight
      then (case infl bone_index of
              None \<Rightarrow> infl(bone_index \<mapsto> [bone_weight \<mapsto> [i]])
            | Some m \<Rightarrow>
                (case m bone_weight of
                   None \<Rightarrow> infl(bone_index \<mapsto> m(bone_weight \<mapsto> [i]))
                 | Some vs \<Rightarrow>
                     if i \<in> set vs then infl
                     else infl(bone_index \<mapsto> m(bone_weight \<mapsto> vs @ [i]))))
      else infl)"

definition read_influence :: "nat \<Rightarrow> influences \<Rightarrow> influences reader" where
  "read_influence i infl =
     bnd (seek_cur 2) (\<lambda>u.
     bnd (read 6) (\<lambda>bs.
     bnd (lift (unpack_Hf bs)) (\<lambda>(bone_index, bone_weight).
       ret (add_influence i bone_index bone_weight infl))))"

definition read_blend_vertex :: "nat \<Rightarrow> influences \<Rightarrow> influences reader" where
  "read_blend_vertex i infl =
     bnd read_I (\<lambda>bone_influence_count.
       for_range bone_influence_count (\<lambda>j. read_influence i) infl)"

definition load_bone_influences :: "nat \<Rightarrow> influences reader" where
  "load_bone_influences version =
     bnd read_I (\<lambda>n.
     bnd (if version < x500E \<and> n \<noteq> 0 then bnd warning (\<lambda>u. ret 0) else ret n)
       (\<lambda>blend_vertex_count.
          for_range blend_vertex_count read_blend_vertex Map.empty))"

definition skip_matrices :: "nat \<Rightarrow> unit reader" where
  "skip_matrices version =
     bnd read_I (\<lambda>n.
     bnd (if version < x500E \<and> n \<noteq> 0 then bnd warning (\<lambda>u. ret 0) else ret n)
       (\<lambda>unknown_count.
          bnd (skip_each unknown_count 64) (\<lambda>u. skip_each unknown_count 2)))"

text \<open>
  An entry of \<^verbatim>\<open>vertex_indices\<close>: (position, normal, texcoord, unknown0, unknown1).
\<close>

type_synonym vertex_index = "nat \<times> nat \<times> nat \<times> nat \<times> nat"

definition read_vertex_index :: "nat \<Rightarrow> vertex_index reader" where
  "read_vertex_index version =
     (if version < x500E
      then bnd (read 10) (\<lambda>bs.
           bnd (lift (unpack_5H bs))
             (\<lambda>(vertex_position_index, vertex_normal_index, vertex_texcoord_index,
                 vertex_unknown0_index, vertex_unknown1_index).
                ret (vertex_position_index, vertex_normal_index, vertex_texcoord_index,
                     vertex_unknown0_index, vertex_unknown1_index)))
      else if version = x500E
      then bnd (read 12) (\<lambda>bs.
           bnd (lift (unpack_2HI2H bs))
             (\<lambda>(vertex_position_index, vertex_normal_index, vertex_unknown1_index,
                 vertex_unknown0_index, vertex_texcoord_index).
                ret (vertex_position_index, vertex_normal_index, vertex_texcoord_index,
                     vertex_unknown0_index, vertex_unknown1_index)))
      else bnd (read 12) (\<lambda>bs.
           bnd (lift (unpack_2HI2H bs))
             (\<lambda>(vertex_position_index, vertex_normal_index, vertex_texcoord_index,
                 vertex_unknown0_index, vertex_unknown1_index).
                ret (vertex_position_index, vertex_normal_index, vertex_texcoord_index,
                     vertex_unknown0_index, vertex_unknown1_index))))"

definition read_vertex_indices :: "nat \<Rightarrow> vertex_index list reader" where
  "read_vertex_indices version =
     bnd read_I (\<lambda>vertex_count.
       for_range vertex_count
         (\<lambda>i acc. bnd (read_vertex_index version) (\<lambda>t. ret (acc @ [t]))) [])"

definition read_face_count :: "nat \<Rightarrow> nat \<Rightarrow> nat reader" where
  \<comment> \<open>\<^verbatim>\<open>int(face_index_count / 3)\<close> is the floor: the count is below \<open>2 ^ 32\<close>, where the
      float quotient is exact enough\<close>
  "read_face_count version unknown_count0 =
     (if version > x500A
      then bnd (seek_cur 4) (\<lambda>u. bnd read_I (\<lambda>face_index_count. ret (face_index_count div 3)))
      else ret unknown_count0)"

text \<open>A face: its three position indices, normal indices and texcoord indices.\<close>

type_synonym face_b = "nat list \<times> nat list \<times> nat list"

definition face_corner :: "vertex_index list \<Rightarrow> nat \<Rightarrow> face_b \<Rightarrow> face_b reader" where
  "face_corner vertex_indices y face =
     (if y < length vertex_indices
      then (case (vertex_indices ! y, face) of
              ((vertex_position_index, vertex_normal_index, vertex_texcoord_index, r), (ps, ns, ts)) \<Rightarrow>
                ret (ps @ [vertex_position_index], ns @ [vertex_normal_index],
                     ts @ [vertex_texcoord_index]))
      else raise IndexError)"

definition read_face_b :: "vertex_index list \<Rightarrow> face_b reader" where
  "read_face_b vertex_indices =
     bnd read_3H (\<lambda>ys. for_each ys (face_corner vertex_indices) ([], [], []))"

definition read_faces_b :: "vertex_index list \<Rightarrow> nat \<Rightarrow> face_b list reader" where
  "read_faces_b vertex_indices face_count =
     for_range face_count
       (\<lambda>i acc. bnd (read_face_b vertex_indices) (\<lambda>face. ret (acc @ [face]))) []"

definition skip_trailer :: "nat \<Rightarrow> unit reader" where
  "skip_trailer version =
     bnd read_I (\<lambda>unknown_count.
     bnd (skip_each unknown_count 12) (\<lambda>u.
       if version \<ge> x500E then seek_cur 24 else ret ()))"

record decoded_b =
  b_mesh_name :: string
  b_is_bip :: nat
  b_parent_mesh_name :: string
  b_is_parent_bip :: nat
  b_parent_mesh_index :: nat
  b_local_matrix :: "f32 list list"
  b_vertex_positions :: "vec3 list"
  b_vertex_normals :: "vec3 list"
  b_vertex_texcoords :: "uv list"
  b_bone_influences :: influences
  b_vertex_indices :: "vertex_index list"
  b_faces :: "face_b list"

definition read_mesh_b :: "nat \<Rightarrow> decoded_b reader" where
  "read_mesh_b version =
     bnd read_I (\<lambda>name_length.
     bnd (read name_length) (\<lambda>raw_name.
     bnd read_I (\<lambda>parent_name_length.
     bnd (read parent_name_length) (\<lambda>raw_parent_name.
     bnd (decode_name raw_name) (\<lambda>(mesh_name, is_bip).
     bnd (decode_name raw_parent_name) (\<lambda>(parent_mesh_name, is_parent_bip).
     bnd read_I (\<lambda>parent_mesh_index.
     bnd (if version = x5008 then seek_cur 20 else seek_cur 8) (\<lambda>u.
     bnd (read_f 16) (\<lambda>lm.
     bnd (if version \<ge> x500E \<and> version \<le> x5010 then seek_cur 12
          else if version > x5008 then seek_cur 4
          else ret ()) (\<lambda>u.
     bnd read_I (\<lambda>vertex_position_count.
     bnd (read_vec3s vertex_position_count) (\<lambda>vertex_positions.
     bnd read_I (\<lambda>vertex_normal_count.
     bnd (read_vec3s vertex_normal_count) (\<lambda>vertex_normals.
     bnd (skip_unknown_pool version) (\<lambda>u.
     bnd (skip_second_pool version) (\<lambda>u.
     bnd read_texcoords (\<lambda>vertex_texcoords.
     bnd (skip_third_pool version) (\<lambda>u.
     bnd (skip_groups version) (\<lambda>unknown_count0.
     bnd skip_fourth_pool (\<lambda>u.
     bnd (load_bone_influences version) (\<lambda>bone_influences.
     bnd (skip_matrices version) (\<lambda>u.
     bnd (read_vertex_indices version) (\<lambda>vertex_indices.
     bnd (read_face_count version unknown_count0) (\<lambda>face_count.
     bnd (read_faces_b vertex_indices face_count) (\<lambda>faces.
     bnd (skip_trailer version) (\<lambda>u.
       ret \<lparr>b_mesh_name = mesh_name, b_is_bip = is_bip,
            b_parent_mesh_name = parent_mesh_name, b_is_parent_bip = is_parent_bip,
            b_parent_mesh_index = parent_mesh_index,
            b_local_matrix =
              matrix_rows [[0, 4, 8, 12], [1, 5, 9, 13], [2, 6, 10, 14], [3, 7, 11, 15]] lm,
            b_vertex_positions = vertex_positions, b_vertex_normals = vertex_normals,
            b_vertex_texcoords = vertex_texcoords, b_bone_influences = bone_influences,
            b_vertex_indices = vertex_indices,
            b_faces = faces\<rparr>))))))))))))))))))))))))))"

section \<open>What the decoders hand to Blender\<close>

text \<open>
  Blender itself is outside the repository. Of \<^verbatim>\<open>bpy.data\<close> the model keeps the names
  for which \<^verbatim>\<open>name in bpy.data.meshes\<close> (objects, materials, textures) holds, and a new
  datablock is entered under the name it was asked for. A mesh is what
  \<^verbatim>\<open>from_pydata(vertices, edges, faces)\<close> received, with its \<^verbatim>\<open>bip_settings\<close> and the
  UVs written to its UV layer, one polygon for each face in order.
\<close>

record bpy =
  meshes :: "string set"
  objects :: "string set"
  materials :: "string set"
  textures :: "string set"

record mesh =
  is_bip :: bool
  raw_matrix :: "f32 list"
  vertices :: "vec3 list"
  edges :: "(nat \<times> nat) list"
  faces :: "nat list list"
  uv_layer :: "uv list list option"

text \<open>
  An object: its mesh (\<open>None\<close> for an Empty), the parent it was given, and the
  dictionary its vertex groups are made from, keyed as the decoder keys it.
\<close>

record 'k mesh_object =
  obj_name :: string
  obj_data :: "mesh option"
  obj_parent :: "string option"
  obj_matrix :: "f32 list list"
  obj_weights :: "'k \<rightharpoonup> (f32 \<rightharpoonup> nat list)"

section \<open>\<^verbatim>\<open>load_elu_mesh_b\<close>: the mesh\<close>

definition half :: f32 where
  \<comment> \<open>the bits of 0.5\<close>
  "half = 0x3F000000"

definition neg_half :: f32 where
  \<comment> \<open>the bits of -0.5\<close>
  "neg_half = 0xBF000000"

definition cube_vertices :: "vec3 list" where
  "cube_vertices =
     [(neg_half, half, neg_half), (neg_half, half, half),
      (half, half, half), (half, half, neg_half),
      (neg_half, neg_half, neg_half), (neg_half, neg_half, half),
      (half, neg_half, half), (half, neg_half, neg_half)]"

definition cube_edges :: "(nat \<times> nat) list" where
  "cube_edges =
     [(0, 1), (1, 2), (2, 3), (3, 0), (4, 5), (5, 6), (6, 7), (7, 4),
      (0, 4), (1, 5), (2, 6), (3, 7)]"

definition face_uvs_b :: "uv list \<Rightarrow> face_b \<Rightarrow> error + uv list" where
  \<comment> \<open>\<^verbatim>\<open>vertex_texcoords[faces[fi][2][k]]\<close> for k = 0, 1, 2\<close>
  "face_uvs_b vertex_texcoords face =
     (case face of (ps, ns, ts) \<Rightarrow>
        if list_all (\<lambda>t. t < length vertex_texcoords) ts
        then Inr (map (\<lambda>t. vertex_texcoords ! t) ts)
        else Inl IndexError)"

primrec uv_layer_b :: "uv list \<Rightarrow> face_b list \<Rightarrow> error + uv list list" where
  "uv_layer_b vertex_texcoords [] = Inr []"
| "uv_layer_b vertex_texcoords (face # rest) =
     (case face_uvs_b vertex_texcoords face of
        Inl x \<Rightarrow> Inl x
      | Inr uvs \<Rightarrow>
          (case uv_layer_b vertex_texcoords rest of
             Inl x \<Rightarrow> Inl x
           | Inr layer \<Rightarrow> Inr (uvs # layer)))"

definition build_mesh_b :: "nat \<Rightarrow> decoded_b \<Rightarrow> error + mesh" where
  "build_mesh_b version d =
     (if length (b_vertex_positions d) > 0 \<and> length (b_faces d) > 0
      then (if version \<ge> x500B
            then (case uv_layer_b (b_vertex_texcoords d) (b_faces d) of
                    Inl x \<Rightarrow> Inl x
                  | Inr layer \<Rightarrow>
                      Inr \<lparr>is_bip = False, raw_matrix = flatten_cols (b_local_matrix d),
                           vertices = b_vertex_positions d, edges = [],
                           faces = map fst (b_faces d), uv_layer = Some layer\<rparr>)
            else Inr \<lparr>is_bip = False, raw_matrix = flatten_cols (b_local_matrix d),
                      vertices = b_vertex_positions d, edges = [],
                      faces = map fst (b_faces d), uv_layer = None\<rparr>)
      else Inr \<lparr>is_bip = True, raw_matrix = flatten_cols (b_local_matrix d),
                vertices = cube_vertices, edges = cube_edges, faces = [],
                uv_layer = None\<rparr>)"

definition make_object_b :: "bpy \<Rightarrow> nat \<Rightarrow> decoded_b \<Rightarrow> error + (nat mesh_object option \<times> bpy)" where
  \<comment> \<open>the part of \<^verbatim>\<open>load_elu_mesh_b\<close> after the last read\<close>
  "make_object_b b version d =
     (if b_mesh_name d \<notin> meshes b
      then (case build_mesh_b version d of
              Inl x \<Rightarrow> Inl x
            | Inr m \<Rightarrow>
                Inr (Some \<lparr>obj_name = b_mesh_name d, obj_data = Some m,
                           obj_parent =
                             (if b_parent_mesh_index d \<noteq> 0xFFFFFFFF
                                 \<and> b_parent_mesh_name d \<in> insert (b_mesh_name d) (objects b)
                              then Some (b_parent_mesh_name d) else None),
                           obj_matrix = b_local_matrix d,
                           obj_weights =
                             (if version > x500B then b_bone_influences d else Map.empty)\<rparr>,
                     b\<lparr>meshes := insert (b_mesh_name d) (meshes b),
                       objects := insert (b_mesh_name d) (objects b)\<rparr>))
      else Inr (None, b))"

definition load_elu_mesh_b :: "bpy \<Rightarrow> nat \<Rightarrow> (nat mesh_object option \<times> bpy) reader" where
  "load_elu_mesh_b b version =
     bnd (read_mesh_b version) (\<lambda>d. lift (make_object_b b version d))"

section \<open>\<^verbatim>\<open>load_elu_mesh_a\<close>: reading\<close>

type_synonym face_a = "nat \<times> nat \<times> nat"

type_synonym uv_face = "uv \<times> uv \<times> uv"

definition read_face_uvs :: "uv list reader" where
  "read_face_uvs =
     for_range FACE_VERTEX_COUNT (\<lambda>j face_uvs. bnd read_3f (\<lambda>t. ret (face_uvs @ [flip_v t]))) []"

definition extend_group :: "nat list list \<Rightarrow> nat \<Rightarrow> nat list \<Rightarrow> nat list list reader" where
  \<comment> \<open>\<^verbatim>\<open>smooth_groups[smooth_group_index].extend(vs)\<close>\<close>
  "extend_group smooth_groups smooth_group_index vs =
     (if smooth_group_index < length smooth_groups
      then ret (smooth_groups[smooth_group_index := smooth_groups ! smooth_group_index @ vs])
      else raise IndexError)"

definition read_face_a ::
  "nat \<Rightarrow> nat \<Rightarrow> face_a list \<times> uv_face list \<times> nat list list
     \<Rightarrow> (face_a list \<times> uv_face list \<times> nat list list) reader" where
  \<comment> \<open>the body of the face loop\<close>
  "read_face_a version i st =
     (case st of (faces_acc, uv_faces, smooth_groups) \<Rightarrow>
        bnd read_3I (\<lambda>(v1, v2, v3).
        bnd read_face_uvs (\<lambda>face_uvs.
        bnd (seek_cur 4) (\<lambda>u.
        bnd (if version > x5001
             then bnd read_I (\<lambda>smooth_group_index.
                    extend_group smooth_groups smooth_group_index [v1, v2, v3])
             else ret smooth_groups) (\<lambda>smooth_groups'.
          ret (faces_acc @ [if v3 = 0 then (v3, v1, v2) else (v1, v2, v3)],
               uv_faces @ [if v3 = 0 then (face_uvs ! 2, face_uvs ! 0, face_uvs ! 1)
                           else (face_uvs ! 0, face_uvs ! 1, face_uvs ! 2)],
               smooth_groups'))))))"

definition skip_normals :: "nat \<Rightarrow> nat \<Rightarrow> unit reader" where
  "skip_normals version face_count =
     (if version > x5004
      then for_range face_count
             (\<lambda>i u. bnd (seek_cur 12) (\<lambda>u. skip_each FACE_VERTEX_COUNT 12)) ()
      else ret ())"

definition read_vertex_colors :: "nat \<Rightarrow> vec3 list reader" where
  "read_vertex_colors version =
     (if version > x5004
      then bnd read_I (\<lambda>vertex_color_count. read_vec3s vertex_color_count)
      else ret [])"

text \<open>
  \<^verbatim>\<open>weight_groups\<close>: from the bone name to a dictionary from the bone weight to the list
  of vertex indices.
\<close>

type_synonym weight_groups = "string \<rightharpoonup> (f32 \<rightharpoonup> nat list)"

definition read_bone_names :: "string list reader" where
  "read_bone_names =
     for_range BONE_INFLUENCE_COUNT
       (\<lambda>j bone_names.
          bnd (read NAME_LENGTH) (\<lambda>raw_name.
          bnd (decode_name raw_name) (\<lambda>(bone_name, n).
            ret (if length bone_name > 0 then bone_names @ [bone_name] else bone_names)))) []"

definition add_weight :: "nat \<Rightarrow> string \<Rightarrow> f32 \<Rightarrow> weight_groups \<Rightarrow> weight_groups" where
  \<comment> \<open>\<^verbatim>\<open>weight_groups[bone_name][bone_weight].append(i)\<close>, the entries made when missing\<close>
  "add_weight i bone_name bone_weight wg =
     (case wg bone_name of
        None \<Rightarrow> wg(bone_name \<mapsto> [bone_weight \<mapsto> [i]])
      | Some m \<Rightarrow>
          (case m bone_weight of
             None \<Rightarrow> wg(bone_name \<mapsto> m(bone_weight \<mapsto> [i]))
           | Some vs \<Rightarrow> wg(bone_name \<mapsto> m(bone_weight \<mapsto> vs @ [i]))))"

primrec pair_weights ::
  "nat \<Rightarrow> string list \<Rightarrow> (nat \<times> f32) list \<Rightarrow> weight_groups \<Rightarrow> error + weight_groups" where
  \<comment> \<open>\<^verbatim>\<open>for j, bone_weight in enumerate(bone_weights): bone_name = bone_names[j]; ...\<close>\<close>
  "pair_weights i bone_names [] wg = Inr wg"
| "pair_weights i bone_names (jw # rest) wg =
     (if fst jw < length bone_names
      then pair_weights i bone_names rest (add_weight i (bone_names ! fst jw) (snd jw) wg)
      else Inl IndexError)"

definition read_weight_group :: "nat \<Rightarrow> weight_groups \<Rightarrow> weight_groups reader" where
  \<comment> \<open>the body of the bone-influence loop; \<open>i\<close> is the group's index\<close>
  "read_weight_group i wg =
     bnd read_bone_names (\<lambda>bone_names.
     bnd (read_f 4) (\<lambda>ws.
     bnd (seek_cur 16) (\<lambda>u.
     bnd (seek_cur 4) (\<lambda>u.
     bnd (skip_each BONE_INFLUENCE_COUNT 12) (\<lambda>u.
       lift (pair_weights i bone_names (enumerate 0 (filter float_gt_zero ws)) wg))))))"

definition one :: f32 where
  \<comment> \<open>the bits of 1.0\<close>
  "one = 0x3F800000"

record decoded_a =
  a_mesh_name :: string
  a_is_bip :: nat
  a_parent_mesh_name :: string
  a_is_parent_bip :: nat
  a_world_matrix :: "f32 list list"
  a_scale :: vec3
  a_vertices :: "vec3 list"
  a_faces :: "face_a list"
  a_uv_faces :: "uv_face list"
  a_smooth_groups :: "nat list list"
  a_vertex_colors :: "vec3 list"
  a_material_index :: nat
  a_weight_groups :: weight_groups

definition read_mesh_a :: "nat \<Rightarrow> decoded_a reader" where
  "read_mesh_a version =
     bnd (read NAME_LENGTH) (\<lambda>raw_name.
     bnd (read NAME_LENGTH) (\<lambda>raw_parent_name.
     bnd (decode_name raw_name) (\<lambda>(mesh_name, is_bip).
     bnd (decode_name raw_parent_name) (\<lambda>(parent_mesh_name, is_parent_bip).
     bnd (read_f 16) (\<lambda>wm.
     bnd (if version > x11 then bnd read_3f (\<lambda>(sx, sy, sz). ret (sx, sz, sy))
          else ret (one, one, one)) (\<lambda>scale.
     bnd (if version > x5002
          then bnd (read_f 4) (\<lambda>rotation.
               bnd (read_f 4) (\<lambda>pivot_scale.
               bnd (read_f 16) (\<lambda>pm. ret ())))
          else ret ()) (\<lambda>u.
     bnd read_I (\<lambda>vertex_count.
     bnd (read_vec3s vertex_count) (\<lambda>vertices_read.
     bnd read_I (\<lambda>face_count.
     bnd (for_range face_count (read_face_a version)
            ([], [], replicate SMOOTH_GROUP_COUNT [])) (\<lambda>(faces_read, uv_faces, smooth_groups).
     bnd (skip_normals version face_count) (\<lambda>u.
     bnd (read_vertex_colors version) (\<lambda>vertex_colors.
     bnd read_2I (\<lambda>(material_index, bone_influence_count).
     bnd (for_range bone_influence_count read_weight_group Map.empty) (\<lambda>weight_groups.
       ret \<lparr>a_mesh_name = mesh_name, a_is_bip = is_bip,
            a_parent_mesh_name = parent_mesh_name, a_is_parent_bip = is_parent_bip,
            a_world_matrix =
              matrix_rows [[0, 4, 8, 12], [2, 6, 10, 14], [1, 5, 9, 13], [3, 7, 11, 15]] wm,
            a_scale = scale, a_vertices = vertices_read, a_faces = faces_read,
            a_uv_faces = uv_faces, a_smooth_groups = smooth_groups,
            a_vertex_colors = vertex_colors, a_material_index = material_index,
            a_weight_groups = weight_groups\<rparr>)))))))))))))))"

section \<open>\<^verbatim>\<open>load_elu_mesh_a\<close>: the mesh\<close>

text \<open>
  The local matrix that Blender computes from the parent's world matrix, the material
  slot, the cloth and smoothing modifiers are left to Blender; the object carries the
  decoded dictionary its weight groups are made from.
\<close>

definition triple_list :: "'a \<times> 'a \<times> 'a \<Rightarrow> 'a list" where
  "triple_list t = (case t of (a, b, c) \<Rightarrow> [a, b, c])"

definition make_object_a :: "bpy \<Rightarrow> decoded_a \<Rightarrow> string mesh_object \<times> bpy" where
  \<comment> \<open>the part of \<^verbatim>\<open>load_elu_mesh_a\<close> after the last read\<close>
  "make_object_a b d =
     (if a_mesh_name d \<notin> meshes b \<and> length (a_vertices d) > 0 \<and> length (a_faces d) > 0
      then (\<lparr>obj_name = a_mesh_name d,
              obj_data =
                Some \<lparr>is_bip = (a_is_bip d \<noteq> 0), raw_matrix = flatten_cols (a_world_matrix d),
                      vertices = a_vertices d, edges = [],
                      faces = map triple_list (a_faces d),
                      uv_layer =
                        (if length (a_uv_faces d) > 0
                         then Some (map triple_list (a_uv_faces d)) else None)\<rparr>,
              obj_parent =
                (if a_parent_mesh_name d \<in> insert (a_mesh_name d) (objects b)
                 then Some (a_parent_mesh_name d) else None),
              obj_matrix = a_world_matrix d,
              obj_weights = a_weight_groups d\<rparr>,
            b\<lparr>meshes := insert (a_mesh_name d) (meshes b),
              objects := insert (a_mesh_name d) (objects b)\<rparr>)
      else (\<lparr>obj_name = a_mesh_name d, obj_data = None,
              obj_parent =
                (if a_parent_mesh_name d \<in> insert (a_mesh_name d) (objects b)
                 then Some (a_parent_mesh_name d) else None),
              obj_matrix = a_world_matrix d,
              obj_weights = Map.empty\<rparr>,
            b\<lparr>objects := insert (a_mesh_name d) (objects b)\<rparr>))"

definition load_elu_mesh_a :: "bpy \<Rightarrow> nat \<Rightarrow> (string mesh_object \<times> bpy) reader" where
  "load_elu_mesh_a b version = bnd (read_mesh_a version) (\<lambda>d. ret (make_object_a b d))"

datatype loaded = FormatA "string mesh_object" | FormatB "nat mesh_object"

definition load_elu_mesh :: "bpy \<Rightarrow> nat \<Rightarrow> (loaded option \<times> bpy) reader" where
  "load_elu_mesh b version =
     (if version < x5008
      then bnd (load_elu_mesh_a b version) (\<lambda>(obj, b'). ret (Some (FormatA obj), b'))
      else bnd (load_elu_mesh_b b version) (\<lambda>(obj, b'). ret (map_option FormatB obj, b')))"

section \<open>Materials and textures\<close>

fun str_nat :: "nat \<Rightarrow> string" where
  \<comment> \<open>the decimal digits of a number\<close>
  "str_nat n =
     (if n < 10 then [char_of (48 + n)]
      else str_nat (n div 10) @ [char_of (48 + n mod 10)])"

declare str_nat.simps [simp del]

definition load_elu_material :: "bpy \<Rightarrow> nat \<Rightarrow> (string \<times> bpy) reader" where
  \<comment> \<open>returns the name of the material, made when it is not there yet\<close>
  "load_elu_material b version =
     bnd read_2I (\<lambda>(index0, index1).
     bnd (read_f 4) (\<lambda>ambient_color.
     bnd (read_f 4) (\<lambda>diffuse_color.
     bnd (read_f 4) (\<lambda>specular_color.
     bnd (read_f 1) (\<lambda>specular_power.
     bnd (seek_cur 4) (\<lambda>u.
       ret (''z_material.'' @ pad3 (str_nat index0),
            b\<lparr>materials := insert (''z_material.'' @ pad3 (str_nat index0)) (materials b)\<rparr>)))))))"

text \<open>
  \<^verbatim>\<open>os.path.splitext\<close> belongs to the platform's path module and is a parameter. The
  search for the image file on disk is left out: the texture is known by its name.
\<close>

definition load_elu_texture ::
  "(string \<Rightarrow> string \<times> string) \<Rightarrow> bpy \<Rightarrow> nat \<Rightarrow> (string \<times> bpy) reader" where
  \<comment> \<open>returns the name of the texture, made when it is not there yet\<close>
  "load_elu_texture splitext b version =
     bnd (if version < x5006
          then bnd (read NAME_LENGTH) (\<lambda>name0. bnd (read NAME_LENGTH) (\<lambda>name1. ret (name0, name1)))
          else bnd (read PATH_LENGTH) (\<lambda>name0. bnd (read PATH_LENGTH) (\<lambda>name1. ret (name0, name1))))
       (\<lambda>(name0, name1).
     bnd (lift (ascii name0)) (\<lambda>s0.
     bnd (lift (ascii name1)) (\<lambda>s1.
       ret (fst (splitext (rstrip0 s0)),
            b\<lparr>textures := insert (fst (splitext (rstrip0 s0))) (textures b)\<rparr>))))"

definition load_elu_textured_material ::
  "(string \<Rightarrow> string \<times> string) \<Rightarrow> bpy \<Rightarrow> nat \<Rightarrow> bpy reader" where
  "load_elu_textured_material splitext b version =
     bnd (load_elu_material b version) (\<lambda>(material, b1).
     bnd (load_elu_texture splitext b1 version) (\<lambda>(texture, b2).
     bnd (if version > x5001 then read_I else ret 0) (\<lambda>two_sided.
     bnd (if version > x5003 then bnd read_I (\<lambda>additive. ret ()) else ret ()) (\<lambda>u.
     bnd (if version > x5006 then read_I else ret 0) (\<lambda>alpha_percent.
       ret b2)))))"

section \<open>The driver\<close>

text \<open>
  \<^verbatim>\<open>load_elu\<close> up to the armature, which is built in Blender from the objects made
  here: the objects in file order and the final \<^verbatim>\<open>bpy.data\<close>.
\<close>

definition load_elu ::
  "(string \<Rightarrow> string \<times> string) \<Rightarrow> bpy \<Rightarrow> nat \<Rightarrow> (loaded list \<times> bpy) reader" where
  "load_elu splitext b version =
     bnd read_2I (\<lambda>(material_count, mesh_count).
     bnd (if material_count > 0 \<and> version < x5008
          then for_range material_count
                 (\<lambda>i b'. load_elu_textured_material splitext b' version) b
          else ret b) (\<lambda>b1.
       for_range mesh_count
         (\<lambda>i (objs, b').
            bnd (load_elu_mesh b' version) (\<lambda>(mesh_object, b'').
              ret (case mesh_object of None \<Rightarrow> objs | Some obj \<Rightarrow> objs @ [obj], b'')))
         ([], b1)))"

datatype status = CANCELLED | FINISHED

definition opened :: "byte list \<Rightarrow> elu" where
  \<comment> \<open>\<^verbatim>\<open>io.open(path, mode='r+b')\<close>\<close>
  "opened bs = \<lparr>bytes = bs, pos = 0, warnings = []\<rparr>"

definition load_from_path ::
  "(string \<Rightarrow> string \<times> string) \<Rightarrow> bpy \<Rightarrow> byte list
     \<Rightarrow> error + ((status \<times> loaded list \<times> bpy) \<times> elu)" where
  \<comment> \<open>the file's bytes stand for the path; the result with the file as it is left\<close>
  "load_from_path splitext b bs =
     bnd read_2I (\<lambda>(magic, version).
       if magic \<noteq> ELU_MAGIC \<or> version \<notin> ELU_VERSIONS
       then ret (CANCELLED, [], b)
       else bnd (load_elu splitext b version) (\<lambda>(objs, b'). ret (FINISHED, objs, b')))
     (opened bs)"

section \<open>Reading the dictionaries\<close>

definition recorded :: "('k \<rightharpoonup> (f32 \<rightharpoonup> nat list)) \<Rightarrow> 'k \<Rightarrow> f32 \<Rightarrow> nat \<Rightarrow> bool" where
  \<comment> \<open>\<^verbatim>\<open>key in d and w in d[key] and i in d[key][w]\<close>\<close>
  "recorded d key w i =
     (case d key of
        None \<Rightarrow> False
      | Some m \<Rightarrow> (case m w of None \<Rightarrow> False | Some vs \<Rightarrow> i \<in> set vs))"

section \<open>Reading and skipping\<close>

lemma read_eq:
  "read n e =
     Inr (take n (drop (pos e) (bytes e)),
          e\<lparr>pos := pos e + min n (length (bytes e) - pos e)\<rparr>)"
  by (simp add: read_def Let_def min.commute)

lemma read_enough:
  "pos e + n \<le> length (bytes e) \<Longrightarrow>
   read n e = Inr (take n (drop (pos e) (bytes e)), e\<lparr>pos := pos e + n\<rparr>)"
  by (simp add: read_def Let_def)

lemma read_I_enough:
  "pos e + 4 \<le> length (bytes e) \<Longrightarrow>
   read_I e = Inr (field (bytes e) (pos e) 4, e\<lparr>pos := pos e + 4\<rparr>)"
  by (simp add: read_I_def bnd_def read_enough lift_def unpack_I_def ret_def field_def)

lemma read_I_short:
  assumes "length (bytes e) < pos e + 4"
  shows "read_I e = Inl StructError"
proof -
  obtain bs e' where r: "read 4 e = Inr (bs, e')" and "bs = take 4 (drop (pos e) (bytes e))"
    by (simp add: read_eq)
  then have "length bs \<noteq> 4"
    using assms by simp
  then have "unpack_I 1 bs = Inl StructError"
    by (simp add: unpack_I_def)
  then show ?thesis
    by (simp add: read_I_def bnd_def r lift_def)
qed

lemma for_each_skip:
  "for_each xs (\<lambda>i u. seek_cur k) () e = Inr ((), e\<lparr>pos := pos e + length xs * k\<rparr>)"
proof (induction xs arbitrary: e)
  case Nil
  then show ?case by (simp add: ret_def)
next
  case (Cons x xs)
  then show ?case by (simp add: bnd_def seek_cur_def add.assoc add.commute)
qed

lemma skip_each_eq:
  "skip_each n k e = Inr ((), e\<lparr>pos := pos e + n * k\<rparr>)"
  by (simp add: skip_each_def for_range_def for_each_skip)

lemma field_chunk:
  "i + w \<le> n \<Longrightarrow> field (take n (drop p bs)) i w = field bs (p + i) w"
  by (simp add: field_def drop_take min_def add.commute)

lemma read_f_enough:
  "pos e + 4 * n \<le> length (bytes e) \<Longrightarrow>
   read_f n e =
     Inr (map (\<lambda>i. of_nat (field (bytes e) (pos e + 4 * i) 4)) [0 ..< n],
          e\<lparr>pos := pos e + 4 * n\<rparr>)"
  by (simp add: read_f_def bnd_def read_enough lift_def unpack_f_def field_chunk)



lemma read_2I_enough:
  "pos e + 8 \<le> length (bytes e) \<Longrightarrow>
   read_2I e =
     Inr ((field (bytes e) (pos e) 4, field (bytes e) (pos e + 4) 4), e\<lparr>pos := pos e + 8\<rparr>)"
  by (simp add: read_2I_def bnd_def read_enough lift_def unpack_I_def ret_def field_chunk
      upt_rec_numeral)

lemma read_2I_short:
  assumes "length (bytes e) < pos e + 8"
  shows "read_2I e = Inl StructError"
proof -
  obtain bs e' where r: "read 8 e = Inr (bs, e')" and "bs = take 8 (drop (pos e) (bytes e))"
    by (simp add: read_eq)
  then have "length bs \<noteq> 8"
    using assms by simp
  then have "unpack_I 2 bs = Inl StructError"
    by (simp add: unpack_I_def)
  then show ?thesis
    by (simp add: read_2I_def bnd_def r lift_def)
qed

section \<open>Loops\<close>


section \<open>Names that are padded with zeros\<close>

lemma ascii_zeros:
  "ascii (replicate k 0) = Inr (replicate k (CHR 0x00))"
  by (simp add: ascii_def char_of_eq_iff)

lemma ascii_padded:
  "c < 0x80 \<Longrightarrow> ascii (c # replicate k 0) = Inr (char_of (unat c) # replicate k (CHR 0x00))"
  by (simp add: ascii_def char_of_eq_iff)

lemma rstrip0_zeros:
  "rstrip0 (replicate k (CHR 0x00)) = []"
  by (simp add: rstrip0_def)

lemma dropWhile_zeros:
  "c \<noteq> z \<Longrightarrow> dropWhile (\<lambda>x. x = z) (replicate k z @ [c]) = [c]"
  by (induction k) simp_all

lemma rstrip0_padded:
  "c \<noteq> CHR 0x00 \<Longrightarrow> rstrip0 (c # replicate k (CHR 0x00)) = [c]"
  by (simp add: rstrip0_def dropWhile_zeros)

lemma decode_plain:
  assumes "ascii bs = Inr s" and "take 3 (rstrip0 s) \<noteq> ''Bip''"
  shows "decode_name bs e = Inr ((rstrip0 s, 0), e)"
  using assms
  by (simp add: decode_name_def bnd_def lift_def ret_def elu_to_blender_name_def bip_match_def
      bip_candidates_def strip_Bip_def)

section \<open>The header of the file\<close>

text \<open>
  C1, as the code has it. A file shorter than the 8-byte header raises \<^verbatim>\<open>struct.error\<close>.
  Otherwise the header is accepted exactly when the magic is 0x0107F060 and the version is
  one of the 16 tags. Every other header gives the one result CANCELLED, whichever of the
  two tests failed, with nothing imported and the position at 8: no byte after the header
  has been read. An accepted header hands the file to \<^verbatim>\<open>load_elu\<close> at position 8.
\<close>

theorem header_validation:
  "card ELU_VERSIONS = 16
   \<and> (length bs < 8 \<longrightarrow> load_from_path splitext b bs = Inl StructError)
   \<and> (8 \<le> length bs \<and> (field bs 0 4 \<noteq> ELU_MAGIC \<or> field bs 4 4 \<notin> ELU_VERSIONS) \<longrightarrow>
        load_from_path splitext b bs =
          Inr ((CANCELLED, [], b), \<lparr>bytes = bs, pos = 8, warnings = []\<rparr>))
   \<and> (8 \<le> length bs \<and> field bs 0 4 = ELU_MAGIC \<and> field bs 4 4 \<in> ELU_VERSIONS \<longrightarrow>
        load_from_path splitext b bs =
          (case load_elu splitext b (field bs 4 4) \<lparr>bytes = bs, pos = 8, warnings = []\<rparr> of
             Inl x \<Rightarrow> Inl x
           | Inr ((objs, b'), e') \<Rightarrow> Inr ((FINISHED, objs, b'), e')))"
proof -
  have c: "card ELU_VERSIONS = 16"
    by (simp add: ELU_VERSIONS_def)
  have short: "load_from_path splitext b bs = Inl StructError" if "length bs < 8"
    using that read_2I_short [of "opened bs"]
    by (simp add: load_from_path_def bnd_def opened_def)
  have hdr: "read_2I (opened bs) =
               Inr ((field bs 0 4, field bs 4 4), \<lparr>bytes = bs, pos = 8, warnings = []\<rparr>)"
    if "8 \<le> length bs"
    using that read_2I_enough [of "opened bs"] by (simp add: opened_def)
  have rej: "load_from_path splitext b bs =
               Inr ((CANCELLED, [], b), \<lparr>bytes = bs, pos = 8, warnings = []\<rparr>)"
    if "8 \<le> length bs" "field bs 0 4 \<noteq> ELU_MAGIC \<or> field bs 4 4 \<notin> ELU_VERSIONS"
    using that hdr by (auto simp: load_from_path_def bnd_def ret_def)
  have acc: "load_from_path splitext b bs =
          (case load_elu splitext b (field bs 4 4) \<lparr>bytes = bs, pos = 8, warnings = []\<rparr> of
             Inl x \<Rightarrow> Inl x
           | Inr ((objs, b'), e') \<Rightarrow> Inr ((FINISHED, objs, b'), e'))"
    if "8 \<le> length bs" "field bs 0 4 = ELU_MAGIC" "field bs 4 4 \<in> ELU_VERSIONS"
    using that hdr
    by (auto simp: load_from_path_def bnd_def ret_def split: sum.splits prod.splits)
  from c short rej acc show ?thesis by blast
qed

theorem header_validation_witness:
  "load_from_path (prod.swap \<circ> Pair []) \<lparr>meshes = {}, objects = {}, materials = {}, textures = {}\<rparr>
     [0x60, 0xF0, 0x07, 0x01, 0x09, 0x50, 0, 0, 1, 2, 3] =
   Inr ((CANCELLED, [], \<lparr>meshes = {}, objects = {}, materials = {}, textures = {}\<rparr>),
        \<lparr>bytes = [0x60, 0xF0, 0x07, 0x01, 0x09, 0x50, 0, 0, 1, 2, 3], pos = 8, warnings = []\<rparr>)
   \<and> load_from_path (prod.swap \<circ> Pair []) \<lparr>meshes = {}, objects = {}, materials = {}, textures = {}\<rparr>
     [0x60, 0xF0, 0x07] = Inl StructError"
  using header_validation [of "[0x60, 0xF0, 0x07, 0x01, 0x09, 0x50, 0, 0, 1, 2, 3]"
      "prod.swap \<circ> Pair []" "\<lparr>meshes = {}, objects = {}, materials = {}, textures = {}\<rparr>"]
    header_validation [of "[0x60, 0xF0, 0x07]"
      "prod.swap \<circ> Pair []" "\<lparr>meshes = {}, objects = {}, materials = {}, textures = {}\<rparr>"]
  by (simp add: field_def le_nat_def ELU_MAGIC_def ELU_VERSIONS_def)

text \<open>
  A wrong magic with a supported version and the right magic with an unsupported version
  end in the same result: the two rejections are not told apart.
\<close>

theorem rejections_not_distinguished_counterexample:
  "map_sum id (fst \<circ> fst)
     (load_from_path (prod.swap \<circ> Pair []) \<lparr>meshes = {}, objects = {}, materials = {}, textures = {}\<rparr>
        [0, 0, 0, 0, 0x01, 0x50, 0, 0]) = Inr CANCELLED
   \<and> map_sum id (fst \<circ> fst)
     (load_from_path (prod.swap \<circ> Pair []) \<lparr>meshes = {}, objects = {}, materials = {}, textures = {}\<rparr>
        [0x60, 0xF0, 0x07, 0x01, 0x09, 0x50, 0, 0]) = Inr CANCELLED"
  by (simp add: load_from_path_def opened_def bnd_def read_2I_def read_def Let_def lift_def
      unpack_I_def ret_def field_def le_nat_def ELU_MAGIC_def ELU_VERSIONS_def
      upt_rec_numeral)

section \<open>Placeholder and real meshes of Format B\<close>

lemma le_nat_zeros:
  "le_nat (replicate k 0) = 0"
  by (induction k) (simp_all add: le_nat_def)

lemma read_I_zeros:
  assumes "take 4 (drop (pos e) (bytes e)) = replicate 4 0"
  shows "read_I e = Inr (0, e\<lparr>pos := pos e + 4\<rparr>)"
proof -
  have "length (take 4 (drop (pos e) (bytes e))) = 4"
    using assms by simp
  then have "pos e + 4 \<le> length (bytes e)"
    by simp
  from read_I_enough [OF this] show ?thesis
    using assms by (simp add: field_def le_nat_zeros)
qed

lemma for_range_0:
  "for_range 0 body s = ret s"
  by (simp add: for_range_def fun_eq_iff)

lemma read_I_small:
  assumes "take 4 (drop (pos e) (bytes e)) = [k, 0, 0, 0]"
  shows "read_I e = Inr (unat k, e\<lparr>pos := pos e + 4\<rparr>)"
proof -
  have "length (take 4 (drop (pos e) (bytes e))) = 4"
    using assms by simp
  then have "pos e + 4 \<le> length (bytes e)"
    by simp
  from read_I_enough [OF this] show ?thesis
    using assms by (simp add: field_def le_nat_def)
qed

lemma for_range_1:
  "for_range (Suc 0) body s = body 0 s"
  by (simp add: for_range_def bnd_def ret_def fun_eq_iff split: sum.splits)


subsection \<open>Three mesh entries of Format B\<close>

text \<open>
  An entry of version 0x5008 named Cube with every count zero; an entry of version 0x500B
  with one position, one indexed vertex and one face but no texcoord; the same entry with
  one texcoord.
\<close>

lemma cube_mesh_read:
  "\<exists>d. read_mesh_b 0x5008
          \<lparr>bytes = [4, 0, 0, 0, 0x43, 0x75, 0x62, 0x65] @ replicate 140 0, pos = 0, warnings = []\<rparr>
        = Inr (d, \<lparr>bytes = [4, 0, 0, 0, 0x43, 0x75, 0x62, 0x65] @ replicate 140 0, pos = 148,
                   warnings = []\<rparr>)
      \<and> b_mesh_name d = ''Cube'' \<and> b_vertex_positions d = [] \<and> b_faces d = []"
proof -
  have nm: "decode_name [0x43, 0x75, 0x62, 0x65] x = Inr ((''Cube'', 0), x)" for x
  proof -
    have a: "ascii [0x43, 0x75, 0x62, 0x65] = Inr ''Cube''"
      by (simp add: ascii_def char_of_eq_iff)
    have r: "rstrip0 ''Cube'' = ''Cube''"
      by (simp add: rstrip0_def)
    from decode_plain [OF a, of x] show ?thesis by (simp add: r)
  qed
  have pn: "decode_name [] x = Inr (([], 0), x)" for x
    using decode_plain [of "[]" "[]" x] by (simp add: ascii_def rstrip0_def)
  show ?thesis
    by (simp add: read_mesh_b_def bnd_def read_I_zeros read_I_enough field_def le_nat_def
        read_def Let_def nm pn seek_cur_def read_f_enough ret_def read_vec3s_def for_range_0
        skip_unknown_pool_def skip_second_pool_def skip_each_eq read_texcoords_def
        skip_third_pool_def skip_groups_def skip_fourth_pool_def load_bone_influences_def
        skip_matrices_def read_vertex_indices_def read_face_count_def read_faces_b_def
        skip_trailer_def)
qed



lemma untextured_mesh_read:
  "\<exists>d. read_mesh_b 0x500B \<lparr>bytes = replicate 88 0 @ [1, 0, 0, 0] @ replicate 48 0 @ [1, 0, 0, 0]
                    @ replicate 14 0 @ [3, 0, 0, 0] @ replicate 10 0, pos = 0, warnings = []\<rparr>
        = Inr (d, \<lparr>bytes = replicate 88 0 @ [1, 0, 0, 0] @ replicate 48 0 @ [1, 0, 0, 0]
                    @ replicate 14 0 @ [3, 0, 0, 0] @ replicate 10 0, pos = 172, warnings = []\<rparr>)
      \<and> b_mesh_name d = [] \<and> b_vertex_positions d = [(0, 0, 0)]
      \<and> b_vertex_texcoords d = []
      \<and> b_faces d = [([0, 0, 0], [0, 0, 0], [0, 0, 0])]"
proof -
  define bs :: "byte list" where
    "bs = replicate 88 0 @ [1, 0, 0, 0] @ replicate 48 0 @ [1, 0, 0, 0]
                    @ replicate 14 0 @ [3, 0, 0, 0] @ replicate 10 0"
  define E where "E n = \<lparr>bytes = bs, pos = n, warnings = []\<rparr>" for n
  have sel: "bytes (E n) = bs" "pos (E n) = n" "(E n)\<lparr>pos := k\<rparr> = E k" for n k
    by (simp_all add: E_def)
  have len: "length bs = 172"
    by (simp add: bs_def)
  have z:
    "take 4 (drop 0 bs) = replicate 4 0" "take 4 (drop 4 bs) = replicate 4 0"
    "take 4 (drop 8 bs) = replicate 4 0" "take 4 (drop 104 bs) = replicate 4 0"
    "take 4 (drop 108 bs) = replicate 4 0" "take 4 (drop 112 bs) = replicate 4 0"
    "take 4 (drop 116 bs) = replicate 4 0" "take 4 (drop 120 bs) = replicate 4 0"
    "take 4 (drop 124 bs) = replicate 4 0" "take 4 (drop 132 bs) = replicate 4 0"
    "take 4 (drop 136 bs) = replicate 4 0" "take 4 (drop 168 bs) = replicate 4 0"
    by (simp_all add: bs_def)
  have c:
    "take 4 (drop 88 bs) = [1, 0, 0, 0]" "take 4 (drop 140 bs) = [1, 0, 0, 0]"
    "take 4 (drop 158 bs) = [3, 0, 0, 0]" "take 12 (drop 92 bs) = replicate 12 0"
    "take 10 (drop 144 bs) = replicate 10 0" "take 6 (drop 162 bs) = replicate 6 0"
    by (simp_all add: bs_def)
  have rz: "read_I (E n) = Inr (0, E (n + 4))" if "take 4 (drop n bs) = replicate 4 0" for n
    using read_I_zeros [of "E n"] that by (simp add: sel)
  have rs: "read_I (E n) = Inr (unat k, E (n + 4))" if "take 4 (drop n bs) = [k, 0, 0, 0]" for n k
    using read_I_small [of "E n" k] that by (simp add: sel)
  have sk: "seek_cur k (E n) = Inr ((), E (n + k))" for n k
    by (simp add: seek_cur_def sel)
  have se: "skip_each k m (E n) = Inr ((), E (n + k * m))" for n k m
    by (simp add: skip_each_eq sel)
  have pn: "decode_name [] x = Inr (([], 0), x)" for x
    using decode_plain [of "[]" "[]" x] by (simp add: ascii_def rstrip0_def)
  have s1:
    "read_I (E 0) = Inr (0, E 4)" "read_I (E 4) = Inr (0, E 8)"
    "read_I (E 8) = Inr (0, E 12)" "read_I (E 104) = Inr (0, E 108)"
    "read_I (E 108) = Inr (0, E 112)" "read_I (E 112) = Inr (0, E 116)"
    "read_I (E 116) = Inr (0, E 120)" "read_I (E 120) = Inr (0, E 124)"
    "read_I (E 124) = Inr (0, E 128)" "read_I (E 132) = Inr (0, E 136)"
    "read_I (E 136) = Inr (0, E 140)" "read_I (E 168) = Inr (0, E 172)"
    using z by (simp_all add: rz)
  have s2:
    "read_I (E 88) = Inr (1, E 92)" "read_I (E 140) = Inr (1, E 144)"
    "read_I (E 158) = Inr (3, E 162)"
    using c(1-3) by (simp_all add: rs)
  have e0: "read 0 (E n) = Inr ([], E n)" for n
    by (simp add: read_def Let_def sel)
  have "\<exists>m. read_f 16 (E 20) = Inr (m, E 84)"
    using read_f_enough [of "E 20" 16] by (simp add: sel len)
  then obtain m where lm: "read_f 16 (E 20) = Inr (m, E 84)" ..
  have three: "[0 ..< 3] = [0, 1, 2]"
    by (simp add: numeral_3_eq_3 numeral_2_eq_2)
  have p: "read_vec3s (Suc 0) (E 92) = Inr ([(0, 0, 0)], E 104)"
    by (simp add: read_vec3s_def for_range_1 bnd_def read_3f_def read_f_def read_def Let_def
        sel len c lift_def unpack_f_def three field_def le_nat_zeros ret_def)
  have p0: "read_vec3s 0 x = Inr ([], x)" for x
    by (simp add: read_vec3s_def for_range_0 ret_def)
  have t: "read_texcoords (E 116) = Inr ([], E 120)"
    by (simp add: read_texcoords_def bnd_def s1 for_range_0 ret_def)
  have vi: "read_vertex_indices 0x500B (E 140) = Inr ([(0, 0, 0, 0, 0)], E 154)"
    by (simp add: read_vertex_indices_def bnd_def s2 for_range_1 read_vertex_index_def
        read_def Let_def sel len c lift_def unpack_5H_def field_def le_nat_zeros ret_def)
  have fc: "read_face_count 0x500B 0 (E 154) = Inr (1, E 162)"
    by (simp add: read_face_count_def bnd_def sk s2 ret_def)
  have fs: "read_faces_b [(0, 0, 0, 0, 0)] (Suc 0) (E 162) =
              Inr ([([0, 0, 0], [0, 0, 0], [0, 0, 0])], E 168)"
    by (simp add: read_faces_b_def for_range_1 bnd_def read_face_b_def read_3H_def read_def
        Let_def sel len c lift_def unpack_H_def three field_def le_nat_zeros face_corner_def
        ret_def)
  have "\<exists>d. read_mesh_b 0x500B (E 0) = Inr (d, E 172)
      \<and> b_mesh_name d = [] \<and> b_vertex_positions d = [(0, 0, 0)]
      \<and> b_vertex_texcoords d = []
      \<and> b_faces d = [([0, 0, 0], [0, 0, 0], [0, 0, 0])]"
    by (simp add: read_mesh_b_def bnd_def s1 s2 e0 pn sk lm p p0 t
        skip_unknown_pool_def skip_second_pool_def se skip_third_pool_def skip_groups_def
        skip_fourth_pool_def load_bone_influences_def for_range_0 skip_matrices_def vi fc fs
        skip_trailer_def ret_def)
  then show ?thesis
    by (simp add: E_def bs_def)
qed

lemma textured_mesh_read:
  "\<exists>d. read_mesh_b 0x500B \<lparr>bytes = replicate 88 0 @ [1, 0, 0, 0] @ replicate 24 0 @ [1, 0, 0, 0]
                    @ replicate 32 0 @ [1, 0, 0, 0] @ replicate 14 0 @ [3, 0, 0, 0]
                    @ replicate 10 0, pos = 0, warnings = []\<rparr>
        = Inr (d, \<lparr>bytes = replicate 88 0 @ [1, 0, 0, 0] @ replicate 24 0 @ [1, 0, 0, 0]
                    @ replicate 32 0 @ [1, 0, 0, 0] @ replicate 14 0 @ [3, 0, 0, 0]
                    @ replicate 10 0, pos = 184, warnings = []\<rparr>)
      \<and> b_mesh_name d = [] \<and> b_vertex_positions d = [(0, 0, 0)]
      \<and> b_vertex_texcoords d = [(0, OneMinus 0)]
      \<and> b_faces d = [([0, 0, 0], [0, 0, 0], [0, 0, 0])]"
proof -
  define bs :: "byte list" where
    "bs = replicate 88 0 @ [1, 0, 0, 0] @ replicate 24 0 @ [1, 0, 0, 0]
                    @ replicate 32 0 @ [1, 0, 0, 0] @ replicate 14 0 @ [3, 0, 0, 0]
                    @ replicate 10 0"
  define E where "E n = \<lparr>bytes = bs, pos = n, warnings = []\<rparr>" for n
  have sel: "bytes (E n) = bs" "pos (E n) = n" "(E n)\<lparr>pos := k\<rparr> = E k" for n k
    by (simp_all add: E_def)
  have len: "length bs = 184"
    by (simp add: bs_def)
  have z:
    "take 4 (drop 0 bs) = replicate 4 0" "take 4 (drop 4 bs) = replicate 4 0"
    "take 4 (drop 8 bs) = replicate 4 0" "take 4 (drop 104 bs) = replicate 4 0"
    "take 4 (drop 108 bs) = replicate 4 0" "take 4 (drop 112 bs) = replicate 4 0"
    "take 4 (drop 132 bs) = replicate 4 0" "take 4 (drop 136 bs) = replicate 4 0"
    "take 4 (drop 144 bs) = replicate 4 0" "take 4 (drop 148 bs) = replicate 4 0"
    "take 4 (drop 180 bs) = replicate 4 0"
    by (simp_all add: bs_def)
  have c:
    "take 4 (drop 88 bs) = [1, 0, 0, 0]" "take 4 (drop 152 bs) = [1, 0, 0, 0]"
    "take 4 (drop 170 bs) = [3, 0, 0, 0]" "take 12 (drop 92 bs) = replicate 12 0"
    "take 10 (drop 156 bs) = replicate 10 0" "take 6 (drop 174 bs) = replicate 6 0"
    "take 4 (drop 116 bs) = [1, 0, 0, 0]" "take 12 (drop 120 bs) = replicate 12 0"
    by (simp_all add: bs_def)
  have rz: "read_I (E n) = Inr (0, E (n + 4))" if "take 4 (drop n bs) = replicate 4 0" for n
    using read_I_zeros [of "E n"] that by (simp add: sel)
  have rs: "read_I (E n) = Inr (unat k, E (n + 4))" if "take 4 (drop n bs) = [k, 0, 0, 0]" for n k
    using read_I_small [of "E n" k] that by (simp add: sel)
  have sk: "seek_cur k (E n) = Inr ((), E (n + k))" for n k
    by (simp add: seek_cur_def sel)
  have se: "skip_each k m (E n) = Inr ((), E (n + k * m))" for n k m
    by (simp add: skip_each_eq sel)
  have pn: "decode_name [] x = Inr (([], 0), x)" for x
    using decode_plain [of "[]" "[]" x] by (simp add: ascii_def rstrip0_def)
  have s1:
    "read_I (E 0) = Inr (0, E 4)" "read_I (E 4) = Inr (0, E 8)"
    "read_I (E 8) = Inr (0, E 12)" "read_I (E 104) = Inr (0, E 108)"
    "read_I (E 108) = Inr (0, E 112)" "read_I (E 112) = Inr (0, E 116)"
    "read_I (E 132) = Inr (0, E 136)" "read_I (E 136) = Inr (0, E 140)"
    "read_I (E 144) = Inr (0, E 148)" "read_I (E 148) = Inr (0, E 152)"
    "read_I (E 180) = Inr (0, E 184)"
    using z by (simp_all add: rz)
  have s2:
    "read_I (E 88) = Inr (1, E 92)" "read_I (E 152) = Inr (1, E 156)"
    "read_I (E 170) = Inr (3, E 174)" "read_I (E 116) = Inr (1, E 120)"
    using c(1-3) c(7) by (simp_all add: rs)
  have e0: "read 0 (E n) = Inr ([], E n)" for n
    by (simp add: read_def Let_def sel)
  have "\<exists>m. read_f 16 (E 20) = Inr (m, E 84)"
    using read_f_enough [of "E 20" 16] by (simp add: sel len)
  then obtain m where lm: "read_f 16 (E 20) = Inr (m, E 84)" ..
  have three: "[0 ..< 3] = [0, 1, 2]"
    by (simp add: numeral_3_eq_3 numeral_2_eq_2)
  have p: "read_vec3s (Suc 0) (E 92) = Inr ([(0, 0, 0)], E 104)"
    by (simp add: read_vec3s_def for_range_1 bnd_def read_3f_def read_f_def read_def Let_def
        sel len c lift_def unpack_f_def three field_def le_nat_zeros ret_def)
  have p0: "read_vec3s 0 x = Inr ([], x)" for x
    by (simp add: read_vec3s_def for_range_0 ret_def)
  have t: "read_texcoords (E 116) = Inr ([(0, OneMinus 0)], E 132)"
    by (simp add: read_texcoords_def bnd_def s2 for_range_1 read_3f_def read_f_def read_def
        Let_def sel len c lift_def unpack_f_def three field_def le_nat_zeros ret_def flip_v_def)
  have vi: "read_vertex_indices 0x500B (E 152) = Inr ([(0, 0, 0, 0, 0)], E 166)"
    by (simp add: read_vertex_indices_def bnd_def s2 for_range_1 read_vertex_index_def
        read_def Let_def sel len c lift_def unpack_5H_def field_def le_nat_zeros ret_def)
  have fc: "read_face_count 0x500B 0 (E 166) = Inr (1, E 174)"
    by (simp add: read_face_count_def bnd_def sk s2 ret_def)
  have fs: "read_faces_b [(0, 0, 0, 0, 0)] (Suc 0) (E 174) =
              Inr ([([0, 0, 0], [0, 0, 0], [0, 0, 0])], E 180)"
    by (simp add: read_faces_b_def for_range_1 bnd_def read_face_b_def read_3H_def read_def
        Let_def sel len c lift_def unpack_H_def three field_def le_nat_zeros face_corner_def
        ret_def)
  have "\<exists>d. read_mesh_b 0x500B (E 0) = Inr (d, E 184)
      \<and> b_mesh_name d = [] \<and> b_vertex_positions d = [(0, 0, 0)]
      \<and> b_vertex_texcoords d = [(0, OneMinus 0)]
      \<and> b_faces d = [([0, 0, 0], [0, 0, 0], [0, 0, 0])]"
    by (simp add: read_mesh_b_def bnd_def s1 s2 e0 pn sk lm p p0 t
        skip_unknown_pool_def skip_second_pool_def se skip_third_pool_def skip_groups_def
        skip_fourth_pool_def load_bone_influences_def for_range_0 skip_matrices_def vi fc fs
        skip_trailer_def ret_def)
  then show ?thesis
    by (simp add: E_def bs_def)
qed

subsection \<open>The mesh of a Format B entry\<close>

lemma uv_layer_b_in_range:
  assumes "\<forall>f \<in> set fs. \<forall>t \<in> set (snd (snd f)). t < length tcs"
  shows "\<exists>layer. uv_layer_b tcs fs = Inr layer"
  using assms
proof (induction fs)
  case Nil
  then show ?case by simp
next
  case (Cons f fs)
  then obtain layer where rest: "uv_layer_b tcs fs = Inr layer"
    by auto
  obtain ps ns ts where f: "f = (ps, ns, ts)"
    by (cases f) auto
  with Cons.prems have "list_all (\<lambda>t. t < length tcs) ts"
    by (simp add: list_all_iff)
  with rest f show ?case
    by (simp add: face_uvs_b_def)
qed

lemma cube_corners:
  "length cube_vertices = 8 \<and> distinct cube_vertices
   \<and> set cube_vertices = {neg_half, half} \<times> {neg_half, half} \<times> {neg_half, half}
   \<and> length cube_edges = 12"
  by (auto simp: cube_vertices_def cube_edges_def half_def neg_half_def)

text \<open>
  C2, as the code has it. Take an entry of Format B that decodes and whose name is not yet
  a mesh in Blender. When it has no position or no face, the mesh is the placeholder: the
  8 corners of the cube of side 1 around the origin, 12 edges, no face, flagged as a bone.
  When it has a position and a face, and (from version 0x500B on, where the UVs are bound)
  every texcoord index of its faces is within the texcoord pool, the mesh is a real one:
  the decoded positions and faces, not flagged as a bone, with at least one vertex and one
  face.
\<close>

theorem placeholder_or_real:
  assumes "read_mesh_b version e = Inr (d, e')"
    and "b_mesh_name d \<notin> meshes b"
  shows "(b_vertex_positions d = [] \<or> b_faces d = [] \<longrightarrow>
            (\<exists>obj b'. load_elu_mesh_b b version e = Inr ((Some obj, b'), e')
               \<and> obj_data obj =
                   Some \<lparr>is_bip = True, raw_matrix = flatten_cols (b_local_matrix d),
                         vertices = cube_vertices, edges = cube_edges, faces = [],
                         uv_layer = None\<rparr>))
         \<and> (b_vertex_positions d \<noteq> [] \<and> b_faces d \<noteq> []
              \<and> (version \<ge> x500B \<longrightarrow>
                   (\<forall>f \<in> set (b_faces d). \<forall>t \<in> set (snd (snd f)).
                      t < length (b_vertex_texcoords d))) \<longrightarrow>
            (\<exists>obj m b'. load_elu_mesh_b b version e = Inr ((Some obj, b'), e')
               \<and> obj_data obj = Some m \<and> \<not> is_bip m
               \<and> vertices m = b_vertex_positions d \<and> faces m = map fst (b_faces d)
               \<and> edges m = [] \<and> vertices m \<noteq> [] \<and> faces m \<noteq> []))
         \<and> length cube_vertices = 8 \<and> distinct cube_vertices
         \<and> set cube_vertices = {neg_half, half} \<times> {neg_half, half} \<times> {neg_half, half}
         \<and> length cube_edges = 12"
proof -
  have run: "load_elu_mesh_b b version e =
               (case make_object_b b version d of
                  Inl x \<Rightarrow> Inl x
                | Inr r \<Rightarrow> Inr (r, e'))"
    using assms(1) by (simp add: load_elu_mesh_b_def bnd_def lift_def)
  have empty: "\<exists>obj b'. load_elu_mesh_b b version e = Inr ((Some obj, b'), e')
               \<and> obj_data obj =
                   Some \<lparr>is_bip = True, raw_matrix = flatten_cols (b_local_matrix d),
                         vertices = cube_vertices, edges = cube_edges, faces = [],
                         uv_layer = None\<rparr>"
    if "b_vertex_positions d = [] \<or> b_faces d = []"
    using that assms(2) by (auto simp: run make_object_b_def build_mesh_b_def)
  have real: "\<exists>obj m b'. load_elu_mesh_b b version e = Inr ((Some obj, b'), e')
               \<and> obj_data obj = Some m \<and> \<not> is_bip m
               \<and> vertices m = b_vertex_positions d \<and> faces m = map fst (b_faces d)
               \<and> edges m = [] \<and> vertices m \<noteq> [] \<and> faces m \<noteq> []"
    if ne: "b_vertex_positions d \<noteq> []" "b_faces d \<noteq> []"
      and uv: "version \<ge> x500B \<longrightarrow>
                 (\<forall>f \<in> set (b_faces d). \<forall>t \<in> set (snd (snd f)).
                    t < length (b_vertex_texcoords d))"
  proof (cases "version \<ge> x500B")
    case True
    with uv obtain layer where "uv_layer_b (b_vertex_texcoords d) (b_faces d) = Inr layer"
      using uv_layer_b_in_range by blast
    with True ne assms(2) show ?thesis
      by (simp add: run make_object_b_def build_mesh_b_def)
  next
    case False
    with ne assms(2) show ?thesis
      by (simp add: run make_object_b_def build_mesh_b_def)
  qed
  from empty real cube_corners show ?thesis by blast
qed

theorem placeholder_or_real_witness:
  "(\<exists>obj b'. load_elu_mesh_b \<lparr>meshes = {}, objects = {}, materials = {}, textures = {}\<rparr> 0x5008
       \<lparr>bytes = [4, 0, 0, 0, 0x43, 0x75, 0x62, 0x65] @ replicate 140 0, pos = 0, warnings = []\<rparr>
     = Inr ((Some obj, b'),
            \<lparr>bytes = [4, 0, 0, 0, 0x43, 0x75, 0x62, 0x65] @ replicate 140 0, pos = 148,
              warnings = []\<rparr>)
     \<and> map_option is_bip (obj_data obj) = Some True
     \<and> map_option vertices (obj_data obj) = Some cube_vertices
     \<and> map_option edges (obj_data obj) = Some cube_edges
     \<and> map_option faces (obj_data obj) = Some [])
   \<and> (\<exists>obj b'. load_elu_mesh_b \<lparr>meshes = {}, objects = {}, materials = {}, textures = {}\<rparr> 0x500B
       \<lparr>bytes = replicate 88 0 @ [1, 0, 0, 0] @ replicate 24 0 @ [1, 0, 0, 0]
                 @ replicate 32 0 @ [1, 0, 0, 0] @ replicate 14 0 @ [3, 0, 0, 0]
                 @ replicate 10 0, pos = 0, warnings = []\<rparr>
     = Inr ((Some obj, b'),
            \<lparr>bytes = replicate 88 0 @ [1, 0, 0, 0] @ replicate 24 0 @ [1, 0, 0, 0]
                      @ replicate 32 0 @ [1, 0, 0, 0] @ replicate 14 0 @ [3, 0, 0, 0]
                      @ replicate 10 0, pos = 184, warnings = []\<rparr>)
     \<and> map_option is_bip (obj_data obj) = Some False
     \<and> map_option vertices (obj_data obj) = Some [(0, 0, 0)]
     \<and> map_option faces (obj_data obj) = Some [[0, 0, 0]])"
proof -
  from cube_mesh_read obtain d where
    r: "read_mesh_b 0x5008
          \<lparr>bytes = [4, 0, 0, 0, 0x43, 0x75, 0x62, 0x65] @ replicate 140 0, pos = 0, warnings = []\<rparr>
        = Inr (d, \<lparr>bytes = [4, 0, 0, 0, 0x43, 0x75, 0x62, 0x65] @ replicate 140 0, pos = 148,
                   warnings = []\<rparr>)"
    and d: "b_mesh_name d = ''Cube''" "b_vertex_positions d = []" "b_faces d = []"
    by blast
  have n: "b_mesh_name d \<notin> meshes \<lparr>meshes = {}, objects = {}, materials = {}, textures = {}\<rparr>"
    by simp
  from textured_mesh_read obtain d' where
    r': "read_mesh_b 0x500B
          \<lparr>bytes = replicate 88 0 @ [1, 0, 0, 0] @ replicate 24 0 @ [1, 0, 0, 0]
                    @ replicate 32 0 @ [1, 0, 0, 0] @ replicate 14 0 @ [3, 0, 0, 0]
                    @ replicate 10 0, pos = 0, warnings = []\<rparr>
        = Inr (d', \<lparr>bytes = replicate 88 0 @ [1, 0, 0, 0] @ replicate 24 0 @ [1, 0, 0, 0]
                    @ replicate 32 0 @ [1, 0, 0, 0] @ replicate 14 0 @ [3, 0, 0, 0]
                    @ replicate 10 0, pos = 184, warnings = []\<rparr>)"
    and d': "b_mesh_name d' = []" "b_vertex_positions d' = [(0, 0, 0)]"
      "b_vertex_texcoords d' = [(0, OneMinus 0)]"
      "b_faces d' = [([0, 0, 0], [0, 0, 0], [0, 0, 0])]"
    by blast
  have n': "b_mesh_name d' \<notin> meshes \<lparr>meshes = {}, objects = {}, materials = {}, textures = {}\<rparr>"
    by simp
  from placeholder_or_real [OF r n] d
  have first: "\<exists>obj b'. load_elu_mesh_b \<lparr>meshes = {}, objects = {}, materials = {}, textures = {}\<rparr> 0x5008
       \<lparr>bytes = [4, 0, 0, 0, 0x43, 0x75, 0x62, 0x65] @ replicate 140 0, pos = 0, warnings = []\<rparr>
     = Inr ((Some obj, b'),
            \<lparr>bytes = [4, 0, 0, 0, 0x43, 0x75, 0x62, 0x65] @ replicate 140 0, pos = 148,
              warnings = []\<rparr>)
     \<and> map_option is_bip (obj_data obj) = Some True
     \<and> map_option vertices (obj_data obj) = Some cube_vertices
     \<and> map_option edges (obj_data obj) = Some cube_edges
     \<and> map_option faces (obj_data obj) = Some []"
    by auto
  from placeholder_or_real [OF r' n'] d'
  have second: "\<exists>obj b'. load_elu_mesh_b \<lparr>meshes = {}, objects = {}, materials = {}, textures = {}\<rparr> 0x500B
       \<lparr>bytes = replicate 88 0 @ [1, 0, 0, 0] @ replicate 24 0 @ [1, 0, 0, 0]
                 @ replicate 32 0 @ [1, 0, 0, 0] @ replicate 14 0 @ [3, 0, 0, 0]
                 @ replicate 10 0, pos = 0, warnings = []\<rparr>
     = Inr ((Some obj, b'),
            \<lparr>bytes = replicate 88 0 @ [1, 0, 0, 0] @ replicate 24 0 @ [1, 0, 0, 0]
                      @ replicate 32 0 @ [1, 0, 0, 0] @ replicate 14 0 @ [3, 0, 0, 0]
                      @ replicate 10 0, pos = 184, warnings = []\<rparr>)
     \<and> map_option is_bip (obj_data obj) = Some False
     \<and> map_option vertices (obj_data obj) = Some [(0, 0, 0)]
     \<and> map_option faces (obj_data obj) = Some [[0, 0, 0]]"
    by auto
  from first second show ?thesis by blast
qed

text \<open>
  An entry with no position whose name is already a mesh gives no mesh at all, and an
  entry of version 0x500B with a position and a face whose texcoord index is outside the
  (empty) texcoord pool raises \<^verbatim>\<open>IndexError\<close>.
\<close>

theorem no_mesh_counterexample:
  "map_sum id (b_vertex_positions \<circ> fst)
     (read_mesh_b 0x5008
        \<lparr>bytes = [4, 0, 0, 0, 0x43, 0x75, 0x62, 0x65] @ replicate 140 0, pos = 0,
          warnings = []\<rparr>) = Inr []
   \<and> load_elu_mesh_b \<lparr>meshes = {''Cube''}, objects = {''Cube''}, materials = {}, textures = {}\<rparr>
       0x5008
       \<lparr>bytes = [4, 0, 0, 0, 0x43, 0x75, 0x62, 0x65] @ replicate 140 0, pos = 0, warnings = []\<rparr>
     = Inr ((None, \<lparr>meshes = {''Cube''}, objects = {''Cube''}, materials = {}, textures = {}\<rparr>),
            \<lparr>bytes = [4, 0, 0, 0, 0x43, 0x75, 0x62, 0x65] @ replicate 140 0, pos = 148,
              warnings = []\<rparr>)
   \<and> map_sum id (b_vertex_positions \<circ> fst)
       (read_mesh_b 0x500B
          \<lparr>bytes = replicate 88 0 @ [1, 0, 0, 0] @ replicate 48 0 @ [1, 0, 0, 0]
                    @ replicate 14 0 @ [3, 0, 0, 0] @ replicate 10 0,
            pos = 0, warnings = []\<rparr>) = Inr [(0, 0, 0)]
   \<and> map_sum id (b_faces \<circ> fst)
       (read_mesh_b 0x500B
          \<lparr>bytes = replicate 88 0 @ [1, 0, 0, 0] @ replicate 48 0 @ [1, 0, 0, 0]
                    @ replicate 14 0 @ [3, 0, 0, 0] @ replicate 10 0,
            pos = 0, warnings = []\<rparr>) = Inr [([0, 0, 0], [0, 0, 0], [0, 0, 0])]
   \<and> load_elu_mesh_b \<lparr>meshes = {}, objects = {}, materials = {}, textures = {}\<rparr> 0x500B
       \<lparr>bytes = replicate 88 0 @ [1, 0, 0, 0] @ replicate 48 0 @ [1, 0, 0, 0]
                 @ replicate 14 0 @ [3, 0, 0, 0] @ replicate 10 0,
         pos = 0, warnings = []\<rparr>
     = Inl IndexError"
proof -
  from cube_mesh_read obtain d where
    r: "read_mesh_b 0x5008
          \<lparr>bytes = [4, 0, 0, 0, 0x43, 0x75, 0x62, 0x65] @ replicate 140 0, pos = 0, warnings = []\<rparr>
        = Inr (d, \<lparr>bytes = [4, 0, 0, 0, 0x43, 0x75, 0x62, 0x65] @ replicate 140 0, pos = 148,
                   warnings = []\<rparr>)"
    and d: "b_mesh_name d = ''Cube''" "b_vertex_positions d = []" "b_faces d = []"
    by blast
  from untextured_mesh_read obtain d' where
    r': "read_mesh_b 0x500B
          \<lparr>bytes = replicate 88 0 @ [1, 0, 0, 0] @ replicate 48 0 @ [1, 0, 0, 0]
                    @ replicate 14 0 @ [3, 0, 0, 0] @ replicate 10 0,
            pos = 0, warnings = []\<rparr>
        = Inr (d', \<lparr>bytes = replicate 88 0 @ [1, 0, 0, 0] @ replicate 48 0 @ [1, 0, 0, 0]
                            @ replicate 14 0 @ [3, 0, 0, 0] @ replicate 10 0,
                   pos = 172, warnings = []\<rparr>)"
    and d': "b_mesh_name d' = []" "b_vertex_positions d' = [(0, 0, 0)]"
      "b_vertex_texcoords d' = []" "b_faces d' = [([0, 0, 0], [0, 0, 0], [0, 0, 0])]"
    by blast
  have a: "load_elu_mesh_b \<lparr>meshes = {''Cube''}, objects = {''Cube''}, materials = {}, textures = {}\<rparr>
       0x5008
       \<lparr>bytes = [4, 0, 0, 0, 0x43, 0x75, 0x62, 0x65] @ replicate 140 0, pos = 0, warnings = []\<rparr>
     = Inr ((None, \<lparr>meshes = {''Cube''}, objects = {''Cube''}, materials = {}, textures = {}\<rparr>),
            \<lparr>bytes = [4, 0, 0, 0, 0x43, 0x75, 0x62, 0x65] @ replicate 140 0, pos = 148,
              warnings = []\<rparr>)"
    unfolding load_elu_mesh_b_def bnd_def r
    by (simp add: lift_def make_object_b_def d)
  have b: "load_elu_mesh_b \<lparr>meshes = {}, objects = {}, materials = {}, textures = {}\<rparr> 0x500B
       \<lparr>bytes = replicate 88 0 @ [1, 0, 0, 0] @ replicate 48 0 @ [1, 0, 0, 0]
                 @ replicate 14 0 @ [3, 0, 0, 0] @ replicate 10 0,
         pos = 0, warnings = []\<rparr>
     = Inl IndexError"
    unfolding load_elu_mesh_b_def bnd_def r'
    by (simp add: lift_def make_object_b_def build_mesh_b_def d' face_uvs_b_def)
  have p: "map_sum id (b_vertex_positions \<circ> fst)
     (read_mesh_b 0x5008
        \<lparr>bytes = [4, 0, 0, 0, 0x43, 0x75, 0x62, 0x65] @ replicate 140 0, pos = 0,
          warnings = []\<rparr>) = Inr []"
    unfolding r by (simp add: d)
  have p': "map_sum id (b_vertex_positions \<circ> fst)
       (read_mesh_b 0x500B
          \<lparr>bytes = replicate 88 0 @ [1, 0, 0, 0] @ replicate 48 0 @ [1, 0, 0, 0]
                    @ replicate 14 0 @ [3, 0, 0, 0] @ replicate 10 0,
            pos = 0, warnings = []\<rparr>) = Inr [(0, 0, 0)]"
    unfolding r' by (simp add: d')
  have f': "map_sum id (b_faces \<circ> fst)
       (read_mesh_b 0x500B
          \<lparr>bytes = replicate 88 0 @ [1, 0, 0, 0] @ replicate 48 0 @ [1, 0, 0, 0]
                    @ replicate 14 0 @ [3, 0, 0, 0] @ replicate 10 0,
            pos = 0, warnings = []\<rparr>) = Inr [([0, 0, 0], [0, 0, 0], [0, 0, 0])]"
    unfolding r' by (simp add: d')
  from p a p' f' b show ?thesis by blast
qed

section \<open>Faces of Format A\<close>




section \<open>The second unknown count of Format B\<close>

text \<open>
  C4. After version 0x500E a second unknown count that is not zero is not followed: the
  count is read (four bytes), a warning is logged at the position after it, no entry is
  skipped, and the step returns normally, so the decoder goes on from the byte after the
  count.
\<close>

theorem second_count_forced_to_zero:
  assumes "version > x500E"
    and "pos e + 4 \<le> length (bytes e)"
    and "field (bytes e) (pos e) 4 \<noteq> 0"
  shows "skip_second_pool version e =
           Inr ((), e\<lparr>pos := pos e + 4, warnings := warnings e @ [pos e + 4]\<rparr>)"
  using assms
  by (simp add: skip_second_pool_def bnd_def read_I_enough warning_def skip_each_eq)

theorem second_count_forced_to_zero_witness:
  "skip_second_pool 0x500F \<lparr>bytes = [7, 0, 0, 0, 1, 2, 3], pos = 0, warnings = []\<rparr> =
     Inr ((), \<lparr>bytes = [7, 0, 0, 0, 1, 2, 3], pos = 4, warnings = [4]\<rparr>)"
  using second_count_forced_to_zero
    [of "0x500F" "\<lparr>bytes = [7, 0, 0, 0, 1, 2, 3], pos = 0, warnings = []\<rparr>"]
  by (simp add: field_def le_nat_def)

section \<open>Bone influences of Format B\<close>






section \<open>The indexed-vertex table of Format B\<close>

text \<open>
  C6. The layout of an entry of the indexed-vertex table, by version. Before 0x500E: ten
  bytes, five 16-bit fields in the order position, normal, texcoord, unknown0, unknown1.
  At 0x500E: twelve bytes (16, 16, 32, 16, 16 bits) in the order position, normal,
  unknown1, unknown0, texcoord. After 0x500E: twelve bytes (16, 16, 32, 16, 16 bits) in the
  order position, normal, texcoord, unknown0, unknown1. The entry returned is always
  (position, normal, texcoord, unknown0, unknown1).
\<close>

theorem vertex_index_layout:
  "(version < x500E \<and> pos e + 10 \<le> length (bytes e) \<longrightarrow>
      read_vertex_index version e =
        Inr ((field (bytes e) (pos e) 2, field (bytes e) (pos e + 2) 2,
              field (bytes e) (pos e + 4) 2, field (bytes e) (pos e + 6) 2,
              field (bytes e) (pos e + 8) 2),
             e\<lparr>pos := pos e + 10\<rparr>))
   \<and> (version = x500E \<and> pos e + 12 \<le> length (bytes e) \<longrightarrow>
      read_vertex_index version e =
        Inr ((field (bytes e) (pos e) 2, field (bytes e) (pos e + 2) 2,
              field (bytes e) (pos e + 10) 2, field (bytes e) (pos e + 8) 2,
              field (bytes e) (pos e + 4) 4),
             e\<lparr>pos := pos e + 12\<rparr>))
   \<and> (version > x500E \<and> pos e + 12 \<le> length (bytes e) \<longrightarrow>
      read_vertex_index version e =
        Inr ((field (bytes e) (pos e) 2, field (bytes e) (pos e + 2) 2,
              field (bytes e) (pos e + 4) 4, field (bytes e) (pos e + 8) 2,
              field (bytes e) (pos e + 10) 2),
             e\<lparr>pos := pos e + 12\<rparr>))"
proof -
  have old: "read_vertex_index version e =
        Inr ((field (bytes e) (pos e) 2, field (bytes e) (pos e + 2) 2,
              field (bytes e) (pos e + 4) 2, field (bytes e) (pos e + 6) 2,
              field (bytes e) (pos e + 8) 2),
             e\<lparr>pos := pos e + 10\<rparr>)"
    if "version < x500E" "pos e + 10 \<le> length (bytes e)"
    using that
    by (simp add: read_vertex_index_def bnd_def read_enough lift_def unpack_5H_def ret_def
        field_chunk)
  have mid: "read_vertex_index version e =
        Inr ((field (bytes e) (pos e) 2, field (bytes e) (pos e + 2) 2,
              field (bytes e) (pos e + 10) 2, field (bytes e) (pos e + 8) 2,
              field (bytes e) (pos e + 4) 4),
             e\<lparr>pos := pos e + 12\<rparr>)"
    if "version = x500E" "pos e + 12 \<le> length (bytes e)"
    using that
    by (simp add: read_vertex_index_def bnd_def read_enough lift_def unpack_2HI2H_def ret_def
        field_chunk)
  have new: "read_vertex_index version e =
        Inr ((field (bytes e) (pos e) 2, field (bytes e) (pos e + 2) 2,
              field (bytes e) (pos e + 4) 4, field (bytes e) (pos e + 8) 2,
              field (bytes e) (pos e + 10) 2),
             e\<lparr>pos := pos e + 12\<rparr>)"
    if "version > x500E" "pos e + 12 \<le> length (bytes e)"
    using that
    by (simp add: read_vertex_index_def bnd_def read_enough lift_def unpack_2HI2H_def ret_def
        field_chunk)
  from old mid new show ?thesis by blast
qed

theorem vertex_index_layout_witness:
  "read_vertex_index 0x500C \<lparr>bytes = [1, 0, 2, 0, 3, 0, 4, 0, 5, 0, 6, 0], pos = 0, warnings = []\<rparr>
     = Inr ((1, 2, 3, 4, 5), \<lparr>bytes = [1, 0, 2, 0, 3, 0, 4, 0, 5, 0, 6, 0], pos = 10, warnings = []\<rparr>)
   \<and> read_vertex_index 0x500E \<lparr>bytes = [1, 0, 2, 0, 3, 0, 4, 0, 5, 0, 6, 0], pos = 0, warnings = []\<rparr>
     = Inr ((1, 2, 6, 5, 0x40003), \<lparr>bytes = [1, 0, 2, 0, 3, 0, 4, 0, 5, 0, 6, 0], pos = 12, warnings = []\<rparr>)
   \<and> read_vertex_index 0x500F \<lparr>bytes = [1, 0, 2, 0, 3, 0, 4, 0, 5, 0, 6, 0], pos = 0, warnings = []\<rparr>
     = Inr ((1, 2, 0x40003, 5, 6), \<lparr>bytes = [1, 0, 2, 0, 3, 0, 4, 0, 5, 0, 6, 0], pos = 12, warnings = []\<rparr>)"
  using vertex_index_layout
    [of "0x500C" "\<lparr>bytes = [1, 0, 2, 0, 3, 0, 4, 0, 5, 0, 6, 0], pos = 0, warnings = []\<rparr>"]
    vertex_index_layout
    [of "0x500E" "\<lparr>bytes = [1, 0, 2, 0, 3, 0, 4, 0, 5, 0, 6, 0], pos = 0, warnings = []\<rparr>"]
    vertex_index_layout
    [of "0x500F" "\<lparr>bytes = [1, 0, 2, 0, 3, 0, 4, 0, 5, 0, 6, 0], pos = 0, warnings = []\<rparr>"]
  by (simp add: field_def le_nat_def)

section \<open>Texture names\<close>

text \<open>
  C7, as the code has it. A texture record holds two names of 40 bytes each when the
  version is below 0x5006, and of 256 bytes each from 0x5006 on. Both names are read and
  decoded; the position moves past both, and the texture is named from the first name
  alone.
\<close>

theorem texture_names:
  assumes "n = (if version < x5006 then 40 else 256)"
    and "pos e + 2 * n \<le> length (bytes e)"
    and "ascii (take n (drop (pos e) (bytes e))) = Inr s0"
    and "ascii (take n (drop (pos e + n) (bytes e))) = Inr s1"
  shows "load_elu_texture splitext b version e =
           Inr ((fst (splitext (rstrip0 s0)),
                 b\<lparr>textures := insert (fst (splitext (rstrip0 s0))) (textures b)\<rparr>),
                e\<lparr>pos := pos e + 2 * n\<rparr>)"
proof (cases "version < x5006")
  case True
  with assms have n: "n = 40" by simp
  show ?thesis
    using True assms(2-4) unfolding n
    by (simp add: load_elu_texture_def NAME_LENGTH_def bnd_def read_enough ret_def lift_def)
next
  case False
  with assms have n: "n = 256" by simp
  show ?thesis
    using False assms(2-4) unfolding n
    by (simp add: load_elu_texture_def PATH_LENGTH_def bnd_def read_enough ret_def lift_def)
qed

theorem texture_names_witness:
  "load_elu_texture (prod.swap \<circ> Pair []) \<lparr>meshes = {}, objects = {}, materials = {}, textures = {}\<rparr>
     0x5005 \<lparr>bytes = replicate 80 0, pos = 0, warnings = []\<rparr> =
   Inr (([], \<lparr>meshes = {}, objects = {}, materials = {}, textures = {[]}\<rparr>),
        \<lparr>bytes = replicate 80 0, pos = 80, warnings = []\<rparr>)"
  using texture_names [of 40 "0x5005" "\<lparr>bytes = replicate 80 0, pos = 0, warnings = []\<rparr>"
      "replicate 40 (CHR 0x00)" "replicate 40 (CHR 0x00)" "prod.swap \<circ> Pair []"
      "\<lparr>meshes = {}, objects = {}, materials = {}, textures = {}\<rparr>"]
  by (simp add: ascii_zeros rstrip0_zeros)

text \<open>
  At version 0x5006 the two names take 512 bytes, not 80.
\<close>

theorem texture_names_5006_counterexample:
  "load_elu_texture (prod.swap \<circ> Pair []) \<lparr>meshes = {}, objects = {}, materials = {}, textures = {}\<rparr>
     0x5006 \<lparr>bytes = replicate 512 0, pos = 0, warnings = []\<rparr> =
   Inr (([], \<lparr>meshes = {}, objects = {}, materials = {}, textures = {[]}\<rparr>),
        \<lparr>bytes = replicate 512 0, pos = 512, warnings = []\<rparr>)"
  by (simp add: load_elu_texture_def PATH_LENGTH_def bnd_def read_def Let_def ret_def lift_def
      ascii_zeros rstrip0_zeros)

section \<open>Names that are not bones\<close>

lemma no_prefix_no_match:
  "take 3 s \<noteq> ''Bip'' \<Longrightarrow> bip_match s = None"
  by (simp add: bip_match_def bip_candidates_def strip_Bip_def)

text \<open>
  C8. Classification is a function of the name alone, defined on every string. A name the
  pattern does not match is returned unchanged with the count 0 (not a bone), and
  classifying the returned name again gives the same: unchanged, count 0.
\<close>

theorem classify_pass_through:
  assumes "bip_match s = None"
  shows "elu_to_blender_name s = (s, 0)
         \<and> elu_to_blender_name (fst (elu_to_blender_name s)) = (s, 0)"
  using assms by (simp add: elu_to_blender_name_def)

theorem classify_pass_through_witness:
  "bip_match ''Cube'' = None
   \<and> elu_to_blender_name ''Cube'' = (''Cube'', 0)
   \<and> elu_to_blender_name (fst (elu_to_blender_name ''Cube'')) = (''Cube'', 0)"
proof -
  have m: "bip_match ''Cube'' = None"
    by (rule no_prefix_no_match) simp
  from classify_pass_through [OF m] m show ?thesis by simp
qed

section \<open>Bone names and weights of Format A\<close>

lemma recorded_add_weight:
  "recorded (add_weight i nm w wg) nm w i"
  by (simp add: recorded_def add_weight_def split: option.splits)

lemma recorded_add_weight_mono:
  "recorded wg a b c \<Longrightarrow> recorded (add_weight i nm w wg) a b c"
  by (auto simp: recorded_def add_weight_def split: option.splits)

lemma pair_weights_in_range:
  assumes "\<forall>jw \<in> set jws. fst jw < length ns"
  shows "\<exists>wg'. pair_weights i ns jws wg = Inr wg'
           \<and> (\<forall>jw \<in> set jws. recorded wg' (ns ! fst jw) (snd jw) i)
           \<and> (\<forall>a b c. recorded wg a b c \<longrightarrow> recorded wg' a b c)"
  using assms
proof (induction jws arbitrary: wg)
  case Nil
  then show ?case by simp
next
  case (Cons jw jws)
  from Cons.prems have rest: "\<forall>x \<in> set jws. fst x < length ns" and here: "fst jw < length ns"
    by simp_all
  from Cons.IH [OF rest, of "add_weight i (ns ! fst jw) (snd jw) wg"]
  obtain wg' where
    r: "pair_weights i ns jws (add_weight i (ns ! fst jw) (snd jw) wg) = Inr wg'"
    and all: "\<forall>x \<in> set jws. recorded wg' (ns ! fst x) (snd x) i"
    and mono: "\<forall>a b c. recorded (add_weight i (ns ! fst jw) (snd jw) wg) a b c
                 \<longrightarrow> recorded wg' a b c"
    by blast
  have "recorded wg' (ns ! fst jw) (snd jw) i"
    using mono recorded_add_weight by blast
  moreover have "\<forall>a b c. recorded wg a b c \<longrightarrow> recorded wg' a b c"
    using mono recorded_add_weight_mono by blast
  ultimately show ?case
    using here r all by simp
qed

lemma pair_weights_out_of_range:
  assumes "\<exists>jw \<in> set jws. length ns \<le> fst jw"
  shows "pair_weights i ns jws wg = Inl IndexError"
  using assms
proof (induction jws arbitrary: wg)
  case Nil
  then show ?case by simp
next
  case (Cons jw jws)
  show ?case
  proof (cases "fst jw < length ns")
    case True
    with Cons.prems have "\<exists>x \<in> set jws. length ns \<le> fst x" by auto
    from Cons.IH [OF this] True show ?thesis by simp
  next
    case False
    then show ?thesis by simp
  qed
qed

lemma enumerate_fst_bound:
  "jw \<in> set (enumerate 0 xs) \<Longrightarrow> fst jw < length xs"
  by (auto simp: in_set_enumerate_eq)

lemma enumerate_nth_mem:
  "j < length xs \<Longrightarrow> (j, xs ! j) \<in> set (enumerate 0 xs)"
  by (simp add: in_set_enumerate_eq)

text \<open>
  C9. In a bone-influence group the names that are not empty are kept, in order, and the
  weights above zero are kept, in order; the j-th kept weight is entered, with the group
  index as the vertex, under the j-th kept name. When there are no more kept weights than
  kept names the lookup never leaves the list and the group is read to its end (68 bytes
  past the weights). When there are more kept weights than kept names the lookup
  \<^verbatim>\<open>bone_names[j]\<close> raises \<^verbatim>\<open>IndexError\<close>.
\<close>

theorem bone_name_lookup:
  assumes "read_bone_names e = Inr (bone_names, e1)"
    and "read_f 4 e1 = Inr (ws, e2)"
    and "bone_weights = filter float_gt_zero ws"
  shows "(length bone_weights \<le> length bone_names \<longrightarrow>
            (\<exists>wg'. read_weight_group i wg e = Inr (wg', e2\<lparr>pos := pos e2 + 68\<rparr>)
               \<and> (\<forall>j < length bone_weights.
                     recorded wg' (bone_names ! j) (bone_weights ! j) i)))
         \<and> (length bone_names < length bone_weights \<longrightarrow>
              read_weight_group i wg e = Inl IndexError)"
proof -
  have run: "read_weight_group i wg e =
               (case pair_weights i bone_names (enumerate 0 bone_weights) wg of
                  Inl x \<Rightarrow> Inl x
                | Inr wg' \<Rightarrow> Inr (wg', e2\<lparr>pos := pos e2 + 68\<rparr>))"
    using assms
    by (simp add: read_weight_group_def bnd_def seek_cur_def skip_each_eq
        BONE_INFLUENCE_COUNT_def lift_def split: sum.splits)
  have ok: "\<exists>wg'. read_weight_group i wg e = Inr (wg', e2\<lparr>pos := pos e2 + 68\<rparr>)
               \<and> (\<forall>j < length bone_weights.
                     recorded wg' (bone_names ! j) (bone_weights ! j) i)"
    if le: "length bone_weights \<le> length bone_names"
  proof -
    have "\<forall>jw \<in> set (enumerate 0 bone_weights). fst jw < length bone_names"
      using le enumerate_fst_bound [of _ bone_weights] by fastforce
    from pair_weights_in_range [OF this, of i wg]
    obtain wg' where r: "pair_weights i bone_names (enumerate 0 bone_weights) wg = Inr wg'"
      and all: "\<forall>jw \<in> set (enumerate 0 bone_weights).
                  recorded wg' (bone_names ! fst jw) (snd jw) i"
      by blast
    have "recorded wg' (bone_names ! j) (bone_weights ! j) i" if "j < length bone_weights" for j
      using all enumerate_nth_mem [OF that] by fastforce
    then show ?thesis using r run by simp
  qed
  have bad: "read_weight_group i wg e = Inl IndexError"
    if lt: "length bone_names < length bone_weights"
  proof -
    have "(length bone_names, bone_weights ! length bone_names) \<in> set (enumerate 0 bone_weights)"
      using lt by (rule enumerate_nth_mem)
    then have "\<exists>jw \<in> set (enumerate 0 bone_weights). length bone_names \<le> fst jw"
      by force
    from pair_weights_out_of_range [OF this] run show ?thesis by simp
  qed
  from ok bad show ?thesis by blast
qed

lemma four_names:
  "[0 ..< 4] = [0, 1, 2, 3]"
  by (simp add: numeral_eq_Suc)

lemma decode_A:
  "decode_name (0x41 # replicate 39 0) x = Inr ((''A'', 0), x)"
  using decode_plain [OF ascii_padded, of "0x41" 39 x]
  by (simp add: rstrip0_padded char_of_eq_iff)

lemma decode_empty:
  "decode_name (replicate 40 0) x = Inr (([], 0), x)"
  using decode_plain [OF ascii_zeros, of 40 x] by (simp add: rstrip0_zeros)

text \<open>
  Two groups: one whose first name is empty and whose four weights are 1.0, and one with
  four names and a single weight of 1.0.
\<close>

theorem bone_name_lookup_witness:
  "read_weight_group 0 Map.empty
     \<lparr>bytes = replicate 40 0 @ (0x41 # replicate 39 0) @ (0x41 # replicate 39 0)
               @ (0x41 # replicate 39 0)
               @ [0, 0, 0x80, 0x3F, 0, 0, 0x80, 0x3F, 0, 0, 0x80, 0x3F, 0, 0, 0x80, 0x3F],
       pos = 0, warnings = []\<rparr> = Inl IndexError
   \<and> (\<exists>wg'. read_weight_group 7 Map.empty
         \<lparr>bytes = (0x41 # replicate 39 0) @ (0x41 # replicate 39 0) @ (0x41 # replicate 39 0)
                   @ (0x41 # replicate 39 0)
                   @ [0, 0, 0x80, 0x3F, 0, 0, 0, 0, 0, 0, 0, 0, 0, 0, 0, 0],
           pos = 0, warnings = []\<rparr> =
         Inr (wg',
           \<lparr>bytes = (0x41 # replicate 39 0) @ (0x41 # replicate 39 0) @ (0x41 # replicate 39 0)
                   @ (0x41 # replicate 39 0)
                   @ [0, 0, 0x80, 0x3F, 0, 0, 0, 0, 0, 0, 0, 0, 0, 0, 0, 0],
             pos = 244, warnings = []\<rparr>)
       \<and> recorded wg' ''A'' one 7)"
proof -
  define bs :: "byte list" where
    "bs = replicate 40 0 @ (0x41 # replicate 39 0) @ (0x41 # replicate 39 0)
               @ (0x41 # replicate 39 0)
               @ [0, 0, 0x80, 0x3F, 0, 0, 0x80, 0x3F, 0, 0, 0x80, 0x3F, 0, 0, 0x80, 0x3F]"
  define e where "e = \<lparr>bytes = bs, pos = 0, warnings = []\<rparr>"
  have len: "length bs = 176"
    by (simp add: bs_def)
  have c0: "take 40 bs = replicate 40 0"
    and c1: "take 40 (drop 40 bs) = 0x41 # replicate 39 0"
    and c2: "take 40 (drop 80 bs) = 0x41 # replicate 39 0"
    and c3: "take 40 (drop 120 bs) = 0x41 # replicate 39 0"
    and c4: "take 16 (drop 160 bs) =
               [0, 0, 0x80, 0x3F, 0, 0, 0x80, 0x3F, 0, 0, 0x80, 0x3F, 0, 0, 0x80, 0x3F]"
    by (simp_all add: bs_def)
  have names: "read_bone_names e = Inr ([''A'', ''A'', ''A''], e\<lparr>pos := 160\<rparr>)"
    unfolding read_bone_names_def for_range_def BONE_INFLUENCE_COUNT_def four_names
    by (simp add: e_def bnd_def NAME_LENGTH_def read_def Let_def len c0 c1 c2 c3
        decode_empty decode_A ret_def)
  have ws: "read_f 4 (e\<lparr>pos := 160\<rparr>) = Inr ([one, one, one, one], e\<lparr>pos := 176\<rparr>)"
    by (simp add: e_def read_f_def bnd_def read_def Let_def len c4 lift_def unpack_f_def
        four_names field_def le_nat_def one_def)
  have pw: "[one, one, one, one] = filter float_gt_zero [one, one, one, one]"
    by (simp add: float_gt_zero_def one_def)
  have first: "read_weight_group 0 Map.empty e = Inl IndexError"
    using bone_name_lookup [OF names ws pw, of 0 Map.empty] by simp
  define bs' :: "byte list" where
    "bs' = (0x41 # replicate 39 0) @ (0x41 # replicate 39 0) @ (0x41 # replicate 39 0)
               @ (0x41 # replicate 39 0)
               @ [0, 0, 0x80, 0x3F, 0, 0, 0, 0, 0, 0, 0, 0, 0, 0, 0, 0]"
  define e' where "e' = \<lparr>bytes = bs', pos = 0, warnings = []\<rparr>"
  have len': "length bs' = 176"
    by (simp add: bs'_def)
  have k0: "take 40 bs' = 0x41 # replicate 39 0"
    and k1: "take 40 (drop 40 bs') = 0x41 # replicate 39 0"
    and k2: "take 40 (drop 80 bs') = 0x41 # replicate 39 0"
    and k3: "take 40 (drop 120 bs') = 0x41 # replicate 39 0"
    and k4: "take 16 (drop 160 bs') = [0, 0, 0x80, 0x3F, 0, 0, 0, 0, 0, 0, 0, 0, 0, 0, 0, 0]"
    by (simp_all add: bs'_def)
  have names': "read_bone_names e' = Inr ([''A'', ''A'', ''A'', ''A''], e'\<lparr>pos := 160\<rparr>)"
    unfolding read_bone_names_def for_range_def BONE_INFLUENCE_COUNT_def four_names
    by (simp add: e'_def bnd_def NAME_LENGTH_def read_def Let_def len' k0 k1 k2 k3
        decode_A ret_def)
  have ws': "read_f 4 (e'\<lparr>pos := 160\<rparr>) = Inr ([one, 0, 0, 0], e'\<lparr>pos := 176\<rparr>)"
    by (simp add: e'_def read_f_def bnd_def read_def Let_def len' k4 lift_def unpack_f_def
        four_names field_def le_nat_def one_def)
  have pw': "[one] = filter float_gt_zero [one, 0, 0, 0]"
    by (simp add: float_gt_zero_def one_def)
  have "\<exists>wg'. read_weight_group 7 Map.empty e' = Inr (wg', e'\<lparr>pos := 244\<rparr>)
          \<and> recorded wg' ''A'' one 7"
    using bone_name_lookup [OF names' ws' pw', of 7 Map.empty] by simp
  with first show ?thesis
    by (simp add: e_def bs_def e'_def bs'_def)
qed

section \<open>The numeric suffix of a bone name\<close>

lemma spans_nonempty:
  assumes "(a, r) \<in> set (spans p 1 s)"
  shows "a \<noteq> [] \<and> (\<forall>c \<in> set a. p c)"
proof -
  from assms obtain k where k: "1 \<le> k" "k \<le> length (takeWhile p s)" and a: "a = take k s"
    by (auto simp: spans_def)
  have "length (takeWhile p s) \<le> length s"
    by (rule length_takeWhile_le)
  with k a have "a \<noteq> []" by auto
  moreover have "take k s = take k (takeWhile p s)"
    using k(2) by (metis append_eq_conv_conj takeWhile_dropWhile_id take_take min.absorb1 take_append
        le_refl diff_is_0_eq take_0 append_Nil2)
  then have "set a \<subseteq> set (takeWhile p s)"
    using a by (simp add: set_take_subset)
  then have "\<forall>c \<in> set a. p c"
    by (auto dest: set_takeWhileD)
  ultimately show ?thesis by simp
qed

lemma opt_group_Some:
  assumes "(Some a, r) \<in> set (opt_group p s)"
  shows "a \<noteq> [] \<and> (\<forall>c \<in> set a. p c)"
  using assms spans_nonempty [of a r p s]
  by (auto simp: opt_group_def)

lemma opt_group_Some_ne:
  "(Some a, r) \<in> set (opt_group p s) \<Longrightarrow> a \<noteq> []"
  by (simp add: opt_group_Some)

lemma opt_group_Some_all:
  "(Some a, r) \<in> set (opt_group p s) \<Longrightarrow> c \<in> set a \<Longrightarrow> p c"
  using opt_group_Some by blast

lemma candidate_index:
  assumes "(g, r) \<in> set (bip_candidates s)" and "g_index g = Some d"
  shows "d \<noteq> [] \<and> (\<forall>c \<in> set d. is_digit c)"
  using assms
  by (auto simp: bip_candidates_def List.bind_def split: option.splits
      dest: opt_group_Some_ne opt_group_Some_all)

lemma match_index:
  assumes "bip_match s = Some (g, r)" and "g_index g = Some d"
  shows "d \<noteq> [] \<and> (\<forall>c \<in> set d. is_digit c)"
proof -
  from assms(1) obtain i where "i < length (bip_candidates s)" "bip_candidates s ! i = (g, r)"
    by (auto simp: bip_match_def find_Some_iff)
  then have "(g, r) \<in> set (bip_candidates s)"
    by (metis nth_mem)
  then show ?thesis using assms(2) by (rule candidate_index)
qed

lemma digit_val_pos:
  "is_digit c \<Longrightarrow> c \<noteq> CHR ''0'' \<Longrightarrow> 0 < digit_val c"
  by (auto simp: is_digit_def digit_val_def)

lemma single_digit_value:
  assumes "d \<noteq> []" and "\<forall>c \<in> set d. is_digit c" and "\<not> 1 < length d" and "d \<noteq> ''0''"
  shows "0 < int_of_digits d"
proof -
  from assms(1,3) obtain c where d: "d = [c]"
    by (cases d) auto
  with assms(2,4) have "is_digit c" "c \<noteq> CHR ''0''" by auto
  then show ?thesis using d by (simp add: int_of_digits_def digit_val_pos)
qed

text \<open>
  C10, as the code has it. The captured index \<open>d\<close> is a non-empty string of digits. The
  single digit 0 adds nothing to the name. An index of two or more digits whose value is
  below 10 (the value 0 included, as for 00) adds a dot, the digit 1 and the index padded
  with zeros to three digits. Every other index adds a dot and the index padded with zeros
  to three digits.
\<close>

theorem index_suffix:
  assumes "bip_match s = Some (g, r)" and "g_index g = Some d"
  shows "d \<noteq> [] \<and> (\<forall>c \<in> set d. is_digit c)
         \<and> elu_to_blender_name s =
             (blend (g\<lparr>g_index := None\<rparr>)
                @ (if d = ''0'' then []
                   else if 1 < length d \<and> int_of_digits d < 10 then ''.1'' @ pad3 d
                   else ''.'' @ pad3 d)
                @ r, 1)"
proof -
  have dig: "d \<noteq> [] \<and> (\<forall>c \<in> set d. is_digit c)"
    using assms by (rule match_index)
  have zero: "int_of_digits ''0'' = 0"
    by (simp add: int_of_digits_def digit_val_def)
  have pos: "0 < int_of_digits d" if "\<not> 1 < length d" "d \<noteq> ''0''"
    using dig that single_digit_value by blast
  have "blend g =
          blend (g\<lparr>g_index := None\<rparr>)
          @ (if d = ''0'' then []
             else if 1 < length d \<and> int_of_digits d < 10 then ''.1'' @ pad3 d
             else ''.'' @ pad3 d)"
  proof (cases "d = ''0''")
    case True
    then show ?thesis using assms(2) zero by (simp add: blend_def)
  next
    case False
    show ?thesis
    proof (cases "1 < length d")
      case True
      then show ?thesis using assms(2) False by (auto simp: blend_def)
    next
      case short: False
      with pos False have "0 < int_of_digits d" by simp
      then show ?thesis using assms(2) False short by (simp add: blend_def)
    qed
  qed
  then show ?thesis using assms(1) dig by (simp add: elu_to_blender_name_def)
qed

lemma finger00_match:
  "bip_match ''Bip01 L Finger00'' =
     Some (\<lparr>g_side = Some ''L'', g_name = Some ''Finger'', g_index = Some ''00'',
            g_nub = None\<rparr>, [])"
  by code_simp

theorem index_suffix_witness:
  "elu_to_blender_name ''Bip01 L Finger00'' = (''ZBip_Finger.L.1000'', 1)"
  using index_suffix [OF finger00_match, of "''00''"]
  by (simp add: blend_def pad3_def int_of_digits_def digit_val_def)

text \<open>
  The index 00 has the value 0 and still adds a suffix: the name is not the one without a
  numeric suffix.
\<close>

theorem index_00_counterexample:
  "int_of_digits ''00'' = 0
   \<and> fst (elu_to_blender_name ''Bip01 L Finger00'') = ''ZBip_Finger.L.1000''
   \<and> fst (elu_to_blender_name ''Bip01 L Finger00'') \<noteq> ''ZBip_Finger.L''"
  by (simp add: elu_to_blender_name_def finger00_match blend_def pad3_def int_of_digits_def
      digit_val_def)

end
